theory Spec2Isabelle
  imports Main "HOL-Library.AList"
begin

section \<open>Tax forms: a shallow embedding of \<^verbatim>\<open>server/lib/tax-forms.ts\<close>\<close>

text \<open>
  The module decides which accounts need a US tax form for a year, picks the admin to
  contact, asks HelloWorks for a workflow instance, records the request in the
  \<^verbatim>\<open>LegalDocuments\<close> table and sends the email. Each function of the module is one
  definition below, under the name it has in the source. The database tables, the
  HelloWorks client, the mailer and the logger are explicit: tables are lists of rows in a
  \<open>world\<close> record that every effectful function takes and returns, and everything the
  module imports from files that are not part of it is a field of the \<open>deps\<close> record.
\<close>

subsection \<open>Strings and lodash's \<^verbatim>\<open>truncate\<close>\<close>

text \<open>
  A JavaScript string is a sequence of UTF-16 code units, and its \<^verbatim>\<open>length\<close> counts
  code units. The names of an account and everything built from them (the participant
  name, the names in the email, the log lines) are such sequences, \<open>ustring\<close>, a code unit
  being a natural number below \<open>65536\<close>. Strings that the module only passes along (email
  addresses, URLs, ids, the message and stack of an error, JSON keys) are HOL strings;
  \<open>js\<close> reads a HOL string as a JavaScript string.
\<close>

type_synonym ustring = "nat list"

definition js :: "string \<Rightarrow> ustring" where
  "js s = map of_char s"

text \<open>
  A nullable string is a \<open>ustring option\<close>; \<open>None\<close> stands for \<^verbatim>\<open>null\<close> and
  \<^verbatim>\<open>undefined\<close>. A string is truthy when it is present and not empty.
\<close>

definition truthy :: "ustring option \<Rightarrow> bool" where
  "truthy s = (case s of None \<Rightarrow> False | Some t \<Rightarrow> t \<noteq> [])"

text \<open>\<^verbatim>\<open>a || b\<close> on nullable strings.\<close>

definition jsOr :: "ustring option \<Rightarrow> ustring option \<Rightarrow> ustring option" where
  "jsOr a b = (if truthy a then a else b)"

text \<open>lodash's \<^verbatim>\<open>toString\<close>: \<^verbatim>\<open>null\<close> and \<^verbatim>\<open>undefined\<close> become the empty string.\<close>

definition toString :: "ustring option \<Rightarrow> ustring" where
  "toString s = (case s of None \<Rightarrow> [] | Some t \<Rightarrow> t)"

text \<open>
  lodash's character classes: the surrogates (\<^verbatim>\<open>rsAstralRange\<close>), the combining marks
  (\<^verbatim>\<open>rsComboRange\<close>), the variation selectors (\<^verbatim>\<open>rsVarRange\<close>) and the zero-width
  joiner. \<^verbatim>\<open>hasUnicode\<close> tests whether a string has a code unit of one of them.
\<close>

definition isAstral :: "nat \<Rightarrow> bool" where
  "isAstral u = (0xD800 \<le> u \<and> u \<le> 0xDFFF)"

definition isCombo :: "nat \<Rightarrow> bool" where
  "isCombo u = ((0x300 \<le> u \<and> u \<le> 0x36F) \<or> (0xFE20 \<le> u \<and> u \<le> 0xFE2F)
                \<or> (0x20D0 \<le> u \<and> u \<le> 0x20FF))"

definition isVar :: "nat \<Rightarrow> bool" where
  "isVar u = (u = 0xFE0E \<or> u = 0xFE0F)"

definition isZWJ :: "nat \<Rightarrow> bool" where
  "isZWJ u = (u = 0x200D)"

definition hasUnicode :: "ustring \<Rightarrow> bool" where
  "hasUnicode s = list_ex (\<lambda>u. isZWJ u \<or> isAstral u \<or> isCombo u \<or> isVar u) s"

text \<open>
  The regular expression \<^verbatim>\<open>reUnicode\<close> with which \<^verbatim>\<open>stringToArray\<close> splits a string
  that has such a code unit into symbols. Each part of the expression is a function that
  gives the number of code units the part matches at the start of the string (\<open>None\<close>
  when it does not match; the optional parts always match and give a number). The
  alternatives are tried in the order of the expression, and optional parts and repetitions
  are greedy.
  \<^verbatim>\<open>
  rsFitz      = D83C [DFFB-DFFF]
  rsRegional  = (?: D83C [DDE6-DDFF] ){2}
  rsSurrPair  = [D800-DBFF] [DC00-DFFF]
  rsNonAstral = [^D800-DFFF]
  rsAstral    = [D800-DFFF]
  rsCombo     = [0300-036F FE20-FE2F 20D0-20FF]
  rsOptVar    = [FE0E FE0F]?
  reOptMod    = (?: rsCombo | rsFitz )?
  rsOptJoin   = (?: 200D (?: rsNonAstral | rsRegional | rsSurrPair ) rsOptVar reOptMod )*
  rsSeq       = rsOptVar reOptMod rsOptJoin
  rsSymbol    = (?: rsNonAstral rsCombo? | rsCombo | rsRegional | rsSurrPair | rsAstral )
  reUnicode   = rsFitz (?= rsFitz ) | rsSymbol rsSeq
  \<close>
\<close>

definition orElse :: "nat option \<Rightarrow> nat option \<Rightarrow> nat option" where
  "orElse a b = (case a of Some n \<Rightarrow> Some n | None \<Rightarrow> b)"

definition rsFitz :: "ustring \<Rightarrow> nat option" where
  "rsFitz s =
     (case s of
        a # b # _ \<Rightarrow> if a = 0xD83C \<and> 0xDFFB \<le> b \<and> b \<le> 0xDFFF then Some 2 else None
      | _ \<Rightarrow> None)"

definition regionalIndicator :: "ustring \<Rightarrow> bool" where
  "regionalIndicator s =
     (case s of a # b # _ \<Rightarrow> a = 0xD83C \<and> 0xDDE6 \<le> b \<and> b \<le> 0xDDFF | _ \<Rightarrow> False)"

definition rsRegional :: "ustring \<Rightarrow> nat option" where
  "rsRegional s =
     (if regionalIndicator s \<and> regionalIndicator (drop 2 s) then Some 4 else None)"

definition rsSurrPair :: "ustring \<Rightarrow> nat option" where
  "rsSurrPair s =
     (case s of
        a # b # _ \<Rightarrow>
          if 0xD800 \<le> a \<and> a \<le> 0xDBFF \<and> 0xDC00 \<le> b \<and> b \<le> 0xDFFF then Some 2 else None
      | _ \<Rightarrow> None)"

definition rsNonAstral :: "ustring \<Rightarrow> nat option" where
  "rsNonAstral s = (case s of u # _ \<Rightarrow> if isAstral u then None else Some 1 | [] \<Rightarrow> None)"

definition rsAstral :: "ustring \<Rightarrow> nat option" where
  "rsAstral s = (case s of u # _ \<Rightarrow> if isAstral u then Some 1 else None | [] \<Rightarrow> None)"

definition rsCombo :: "ustring \<Rightarrow> nat option" where
  "rsCombo s = (case s of u # _ \<Rightarrow> if isCombo u then Some 1 else None | [] \<Rightarrow> None)"

definition rsOptVar :: "ustring \<Rightarrow> nat" where
  "rsOptVar s = (case s of u # _ \<Rightarrow> if isVar u then 1 else 0 | [] \<Rightarrow> 0)"

definition reOptMod :: "ustring \<Rightarrow> nat" where
  "reOptMod s = (case orElse (rsCombo s) (rsFitz s) of Some n \<Rightarrow> n | None \<Rightarrow> 0)"

text \<open>One round of the repetition in \<^verbatim>\<open>rsOptJoin\<close>.\<close>

definition rsJoin :: "ustring \<Rightarrow> nat option" where
  "rsJoin s =
     (case s of
        u # t \<Rightarrow>
          if isZWJ u then
            (case orElse (rsNonAstral t) (orElse (rsRegional t) (rsSurrPair t)) of
               Some n \<Rightarrow>
                 (let v = rsOptVar (drop n t); m = reOptMod (drop (n + v) t)
                  in Some (1 + n + v + m))
             | None \<Rightarrow> None)
          else None
      | [] \<Rightarrow> None)"

function rsOptJoin :: "ustring \<Rightarrow> nat" where
  "rsOptJoin s = (case rsJoin s of Some n \<Rightarrow> n + rsOptJoin (drop n s) | None \<Rightarrow> 0)"
  by pat_completeness auto
termination
proof (relation "measure length")
  show "wf (measure length)" by simp
next
  fix s :: ustring and n
  assume "rsJoin s = Some n"
  then have "s \<noteq> [] \<and> 0 < n"
    by (cases s) (auto simp: rsJoin_def Let_def split: if_splits option.splits)
  then show "(drop n s, s) \<in> measure length" by simp
qed

declare rsOptJoin.simps [simp del]

definition rsSeq :: "ustring \<Rightarrow> nat" where
  "rsSeq s =
     (let v = rsOptVar s; m = reOptMod (drop v s); j = rsOptJoin (drop (v + m) s)
      in v + m + j)"

definition rsSymbol :: "ustring \<Rightarrow> nat option" where
  "rsSymbol s =
     orElse (case rsNonAstral s of
               Some n \<Rightarrow> Some (n + (case rsCombo (drop n s) of Some c \<Rightarrow> c | None \<Rightarrow> 0))
             | None \<Rightarrow> None)
       (orElse (rsCombo s) (orElse (rsRegional s) (orElse (rsSurrPair s) (rsAstral s))))"

definition reUnicode :: "ustring \<Rightarrow> nat option" where
  "reUnicode s =
     (case (rsFitz s, rsFitz (drop 2 s)) of
        (Some n, Some _) \<Rightarrow> Some n
      | _ \<Rightarrow> (case rsSymbol s of Some n \<Rightarrow> Some (n + rsSeq (drop n s)) | None \<Rightarrow> None))"

text \<open>
  \<^verbatim>\<open>stringToArray\<close> on a string with \<^verbatim>\<open>hasUnicode\<close>: the successive matches of
  \<^verbatim>\<open>reUnicode\<close>. Every code unit starts a match, so the matches cover the string.
\<close>

function stringToArray :: "ustring \<Rightarrow> ustring list" where
  "stringToArray s =
     (case reUnicode s of
        Some n \<Rightarrow> take n s # stringToArray (drop n s)
      | None \<Rightarrow> [])"
  by pat_completeness auto
termination
proof (relation "measure length")
  show "wf (measure length)" by simp
next
  fix s :: ustring and n
  assume "reUnicode s = Some n"
  then have "s \<noteq> [] \<and> 0 < n"
    by (cases s)
       (auto simp: reUnicode_def rsSymbol_def rsFitz_def rsNonAstral_def rsCombo_def
          rsRegional_def regionalIndicator_def rsSurrPair_def rsAstral_def orElse_def
          split: if_splits option.splits list.splits)
  then show "(drop n s, s) \<in> measure length" by simp
qed

declare stringToArray.simps [simp del]

text \<open>
  \<^verbatim>\<open>truncate(string, { length })\<close> with the default omission \<^verbatim>\<open>'...'\<close> and no
  separator. The length of the string is its number of code units, or its number of
  symbols when \<^verbatim>\<open>hasUnicode\<close> holds. A string no longer than \<open>length\<close> is returned as it
  is; otherwise the first \<open>length - 3\<close> code units (or symbols) are kept and the omission is
  appended (the omission alone when \<open>length - 3 < 1\<close>).
\<close>

definition omission :: ustring where
  "omission = js ''...''"

definition truncate_str :: "ustring option \<Rightarrow> nat \<Rightarrow> ustring" where
  "truncate_str s len =
     (let string = toString s in
      if hasUnicode string then
        (let strSymbols = stringToArray string in
         if length strSymbols \<le> len then string
         else if int len - int (length omission) < 1 then omission
         else concat (take (len - length omission) strSymbols) @ omission)
      else
        (if length string \<le> len then string
         else if int len - int (length omission) < 1 then omission
         else take (len - length omission) string @ omission))"

subsection \<open>The data model\<close>

record Collective =
  collective_id :: nat
  name :: "ustring option"
  legalName :: "ustring option"
  slug :: ustring
  collective_type :: string

record User =
  user_id :: nat
  email :: string
  collective :: Collective

subsection \<open>\<^verbatim>\<open>generateParticipantName\<close>\<close>

definition generateParticipantName :: "Collective \<Rightarrow> User \<Rightarrow> ustring" where
  "generateParticipantName account mainUser =
     (if truthy (legalName account) then truncate_str (legalName account) 64
      else if collective_id account = collective_id (collective mainUser)
        then truncate_str (name account) 64
      else truncate_str (Some (slug account)) 30 @ js '' ('' @
           truncate_str (name (collective mainUser)) 30 @ js '')'')"

subsection \<open>\<^verbatim>\<open>amountsRequireTaxForm\<close>\<close>

text \<open>
  The two thresholds are imported from \<^verbatim>\<open>../constants/tax-form\<close>, which is not part of
  the module; they are parameters here. Amounts are integers (cents).
\<close>

record tax_form_constants =
  US_TAX_FORM_THRESHOLD :: int
  US_TAX_FORM_THRESHOLD_FOR_PAYPAL :: int

definition amountsRequireTaxForm :: "tax_form_constants \<Rightarrow> int \<Rightarrow> int \<Rightarrow> bool" where
  "amountsRequireTaxForm k paypalTotal otherTotal =
     (otherTotal \<ge> US_TAX_FORM_THRESHOLD k \<or> paypalTotal \<ge> US_TAX_FORM_THRESHOLD_FOR_PAYPAL k)"

subsection \<open>JSON values and the \<^verbatim>\<open>deepmerge\<close> package\<close>

text \<open>
  The \<^verbatim>\<open>data\<close> column of a legal document holds a JSON value. An object is the list
  of its own properties in the order in which JavaScript enumerates them: the keys that
  are array indices first, in ascending order, then the other keys in the order of their
  creation.
\<close>

datatype json =
    JNull
  | JBool bool
  | JNum int
  | JStr string
  | JArr "json list"
  | JObj "(string \<times> json) list"

text \<open>
  An array index is the canonical decimal form of an integer below \<open>2^32 - 1\<close>.
\<close>

definition digit :: "char \<Rightarrow> nat option" where
  "digit c =
     map_of [(CHR ''0'', 0), (CHR ''1'', 1), (CHR ''2'', 2), (CHR ''3'', 3), (CHR ''4'', 4),
             (CHR ''5'', 5), (CHR ''6'', 6), (CHR ''7'', 7), (CHR ''8'', 8), (CHR ''9'', 9)] c"

fun decimal :: "nat \<Rightarrow> string \<Rightarrow> nat option" where
  "decimal acc [] = Some acc"
| "decimal acc (c # cs) =
     (case digit c of None \<Rightarrow> None | Some n \<Rightarrow> decimal (10 * acc + n) cs)"

definition arrayIndex :: "string \<Rightarrow> nat option" where
  "arrayIndex key =
     (case key of
        [] \<Rightarrow> None
      | c # cs \<Rightarrow>
          if c = CHR ''0'' \<and> cs \<noteq> [] then None
          else (case decimal 0 key of
                  Some n \<Rightarrow> if n < 4294967295 then Some n else None
                | None \<Rightarrow> None))"

text \<open>
  \<^verbatim>\<open>object[key] = value\<close> on a plain object. An existing property keeps its place; a new
  array index goes before the first property that is not a smaller array index; any other
  new key goes to the end. Assigning to \<^verbatim>\<open>__proto__\<close> runs the setter of
  \<^verbatim>\<open>Object.prototype\<close> and creates no own property.
\<close>

fun insertIndex :: "nat \<Rightarrow> string \<Rightarrow> json \<Rightarrow> (string \<times> json) list \<Rightarrow> (string \<times> json) list" where
  "insertIndex n key v [] = [(key, v)]"
| "insertIndex n key v ((k, x) # ps) =
     (case arrayIndex k of
        Some m \<Rightarrow> if m < n then (k, x) # insertIndex n key v ps else (key, v) # (k, x) # ps
      | None \<Rightarrow> (key, v) # (k, x) # ps)"

definition assign :: "string \<Rightarrow> json \<Rightarrow> (string \<times> json) list \<Rightarrow> (string \<times> json) list" where
  "assign key v ps =
     (if key = ''__proto__'' then ps
      else if key \<in> fst ` set ps then AList.update key v ps
      else (case arrayIndex key of
              Some n \<Rightarrow> insertIndex n key v ps
            | None \<Rightarrow> ps @ [(key, v)]))"

text \<open>
  The names for which \<^verbatim>\<open>key in {}\<close> holds: the properties of \<^verbatim>\<open>Object.prototype\<close>.
\<close>

definition objectPrototypeKeys :: "string list" where
  "objectPrototypeKeys =
     [''constructor'', ''__defineGetter__'', ''__defineSetter__'', ''hasOwnProperty'',
      ''__lookupGetter__'', ''__lookupSetter__'', ''isPrototypeOf'', ''propertyIsEnumerable'',
      ''toString'', ''valueOf'', ''__proto__'', ''toLocaleString'']"

text \<open>
  The target of \<^verbatim>\<open>mergeObject\<close> is never an array; it is given by its own properties,
  or \<open>None\<close> when it is \<^verbatim>\<open>null\<close> or a scalar, on which \<^verbatim>\<open>key in target\<close> throws and
  \<^verbatim>\<open>propertyIsOnObject\<close> answers false. A property is unsafe when it is on the target
  but is not an own property of it.
\<close>

definition propertyIsOnObject :: "(string \<times> json) list option \<Rightarrow> string \<Rightarrow> bool" where
  "propertyIsOnObject target key =
     (case target of
        None \<Rightarrow> False
      | Some ps \<Rightarrow> key \<in> fst ` set ps \<or> key \<in> set objectPrototypeKeys)"

definition propertyIsUnsafe :: "(string \<times> json) list option \<Rightarrow> string \<Rightarrow> bool" where
  "propertyIsUnsafe target key =
     (propertyIsOnObject target key
      \<and> \<not> (case target of None \<Rightarrow> False | Some ps \<Rightarrow> key \<in> fst ` set ps))"

text \<open>\<^verbatim>\<open>target[key]\<close>, read after \<^verbatim>\<open>propertyIsOnObject\<close> and the safety check.\<close>

definition ownProperty :: "(string \<times> json) list option \<Rightarrow> string \<Rightarrow> json option" where
  "ownProperty target key = (case target of None \<Rightarrow> None | Some ps \<Rightarrow> map_of ps key)"

text \<open>
  \<^verbatim>\<open>cloneUnlessOtherwiseSpecified(value)\<close> with the default options: a scalar is returned
  as it is; an array is \<^verbatim>\<open>deepmerge([], value)\<close>, the array of the clones; an object is
  \<^verbatim>\<open>deepmerge({}, value)\<close>, which assigns to a new object the clone of every property
  that is not unsafe for \<^verbatim>\<open>{}\<close>.
\<close>

fun clone :: "json \<Rightarrow> json"
  and cloneAll :: "json list \<Rightarrow> json list"
  and cloneInto :: "(string \<times> json) list \<Rightarrow> (string \<times> json) list \<Rightarrow> (string \<times> json) list"
where
  "clone (JArr xs) = JArr (cloneAll xs)"
| "clone (JObj ps) = JObj (cloneInto [] ps)"
| "clone v = v"
| "cloneAll [] = []"
| "cloneAll (x # xs) = clone x # cloneAll xs"
| "cloneInto destination [] = destination"
| "cloneInto destination ((key, v) # source) =
     cloneInto
       (if propertyIsUnsafe (Some []) key then destination else assign key (clone v) destination)
       source"

text \<open>
  The first loop of \<^verbatim>\<open>mergeObject\<close>: every own property of the target is cloned into
  the destination.
\<close>

fun copyInto :: "(string \<times> json) list \<Rightarrow> (string \<times> json) list \<Rightarrow> (string \<times> json) list" where
  "copyInto destination [] = destination"
| "copyInto destination ((key, v) # target) = copyInto (assign key (clone v) destination) target"

text \<open>
  \<^verbatim>\<open>deepmerge(target, source)\<close> with the default options. The source is an array
  (\<open>deepMergeArray\<close>) or an object (\<open>deepMerge\<close>, given the properties of the source): the
  module passes an object, and inside the recursion the source is merged only when
  \<^verbatim>\<open>isMergeableObject\<close> holds of it. When exactly one of the two is an array the result is
  the clone of the source; two arrays are concatenated and their elements cloned; otherwise
  \<^verbatim>\<open>mergeObject\<close> clones the target's properties (none when the target is not an object)
  and then goes through the properties of the source: an unsafe one is skipped, one that
  the target has and whose value in the source is an array or an object is merged
  recursively, any other is cloned.
\<close>

definition deepMergeArray :: "json \<Rightarrow> json list \<Rightarrow> json" where
  "deepMergeArray target source =
     (case target of JArr t \<Rightarrow> JArr (cloneAll (t @ source)) | _ \<Rightarrow> clone (JArr source))"

fun deepMerge :: "json \<Rightarrow> (string \<times> json) list \<Rightarrow> json"
  and mergeObject ::
    "(string \<times> json) list option \<Rightarrow> (string \<times> json) list \<Rightarrow> (string \<times> json) list
      \<Rightarrow> (string \<times> json) list"
where
  "deepMerge target source =
     (case target of
        JArr _ \<Rightarrow> clone (JObj source)
      | JObj t \<Rightarrow> JObj (mergeObject (Some t) (copyInto [] t) source)
      | _ \<Rightarrow> JObj (mergeObject None [] source))"
| "mergeObject target destination [] = destination"
| "mergeObject target destination ((key, v) # source) =
     mergeObject target
       (if propertyIsUnsafe target key then destination
        else assign key
               (case ownProperty target key of
                  Some tv \<Rightarrow>
                    (case v of
                       JObj vs \<Rightarrow> deepMerge tv vs
                     | JArr vs \<Rightarrow> deepMergeArray tv vs
                     | _ \<Rightarrow> clone v)
                | None \<Rightarrow> clone v)
               destination)
       source"

subsection \<open>Tables, external services and the world\<close>

text \<open>
  Modelled from the spec: the request statuses of \<^verbatim>\<open>../models/LegalDocument\<close>
  (\<^verbatim>\<open>LEGAL_DOCUMENT_REQUEST_STATUS\<close>), the document type \<^verbatim>\<open>US_TAX_FORM\<close> and the columns
  of a legal document, keyed by account, year and document type. A new row starts as
  \<open>NOT_REQUESTED\<close> with no data.
\<close>

datatype LEGAL_DOCUMENT_REQUEST_STATUS = NOT_REQUESTED | REQUESTED | RECEIVED | ERROR

definition US_TAX_FORM :: string where
  "US_TAX_FORM = ''US_TAX_FORM''"

record LegalDocument =
  doc_id :: nat
  documentType :: string
  year :: int
  CollectiveId :: nat
  requestStatus :: LEGAL_DOCUMENT_REQUEST_STATUS
  data :: json

record Expense =
  expense_id :: nat
  FromCollectiveId :: nat
  UserId :: nat
  createdAt :: int

text \<open>A HelloWorks workflow instance: its id and its ordered steps.\<close>

record Step =
  step :: string
  url :: string

record WorkflowInstance =
  instance_id :: string
  steps :: "Step list"

text \<open>The instance as it is stored in the \<^verbatim>\<open>data\<close> column.\<close>

definition instance_json :: "WorkflowInstance \<Rightarrow> json" where
  "instance_json i =
     JObj [(''id'', JStr (instance_id i)),
           (''steps'', JArr (map (\<lambda>s. JObj [(''step'', JStr (step s)), (''url'', JStr (url s))])
                               (steps i)))]"

text \<open>A thrown JavaScript \<^verbatim>\<open>Error\<close>.\<close>

record jsError =
  message :: string
  stack :: string

text \<open>The argument of \<^verbatim>\<open>client.workflowInstances.createInstance\<close>.\<close>

record Participant =
  participant_type :: string
  participant_value :: string
  fullName :: ustring

record Metadata =
  accountType :: string
  accountId :: nat
  adminEmails :: string
  userId :: nat
  metadata_email :: string
  metadata_year :: int

record CreateInstanceParams =
  callbackUrl :: string
  workflowId :: string
  documentDelivery :: bool
  delegatedAuthentication :: bool
  participants :: "(string \<times> Participant) list"
  metadata :: Metadata

text \<open>The \<^verbatim>\<open>client\<close> argument: each call answers with a value or throws.\<close>

record HelloWorks =
  createInstance :: "CreateInstanceParams \<Rightarrow> jsError + WorkflowInstance"
  getAuthenticatedLinkForStep :: "string \<Rightarrow> string \<Rightarrow> jsError + string"

record EmailData =
  documentLink :: string
  recipientName :: "ustring option"
  accountName :: "ustring option"

text \<open>
  A call of \<^verbatim>\<open>emailLib.send\<close> either throws while it is being evaluated, or returns a
  promise, which is then fulfilled (the email is delivered) or rejected.
\<close>

datatype sendResult = Delivered | SyncThrow jsError | Rejected jsError

text \<open>
  What the module imports from files outside it: the deployment environment of
  \<^verbatim>\<open>config\<close>, \<^verbatim>\<open>isEmailInternal\<close> of \<^verbatim>\<open>./utils\<close>, the model methods
  \<^verbatim>\<open>account.getAdminUsers\<close> and \<^verbatim>\<open>legalDocument.shouldBeRequested\<close>, the query
  \<^verbatim>\<open>queries.getTaxFormsRequiredForAccounts(null, year)\<close>, the behaviour of
  \<^verbatim>\<open>emailLib.send\<close>, and the \<^verbatim>\<open>TypeError\<close> that the runtime throws when a property
  of \<^verbatim>\<open>undefined\<close> is read.
\<close>

record deps =
  config_env :: string
  isEmailInternal :: "string \<Rightarrow> bool"
  getAdminUsers :: "Collective \<Rightarrow> User list"
  shouldBeRequested :: "LegalDocument \<Rightarrow> bool"
  getTaxFormsRequiredForAccounts :: "int \<Rightarrow> nat set"
  emailLib_send :: "string \<Rightarrow> string \<Rightarrow> EmailData \<Rightarrow> sendResult"
  typeError :: "string \<Rightarrow> jsError"

text \<open>
  The trace lists, oldest first, every log line, every request sent to HelloWorks, every
  write of a legal document, every load of accounts and every call of the mailer.
\<close>

datatype level = info | warn | error

datatype event =
    Log level ustring
  | Collective_findAll "nat set" int
  | Client_createInstance CreateInstanceParams
  | Client_getAuthenticatedLinkForStep string string
  | LegalDocument_written LegalDocument
  | EmailLib_send string string EmailData

text \<open>
  The database is in memory and its operations do not fail. \<open>outbox\<close> holds the emails
  that were delivered.
\<close>

record world =
  Collectives :: "Collective list"
  LegalDocuments :: "LegalDocument list"
  Expenses :: "Expense list"
  outbox :: "(string \<times> string \<times> EmailData) list"
  trace :: "event list"

definition emit :: "event \<Rightarrow> world \<Rightarrow> world" where
  "emit e w = w\<lparr>trace := trace w @ [e]\<rparr>"

definition logger :: "level \<Rightarrow> ustring \<Rightarrow> world \<Rightarrow> world" where
  "logger l msg w = emit (Log l msg) w"

text \<open>Numbers interpolated into a template string are printed in decimal.\<close>

fun showNat :: "nat \<Rightarrow> string" where
  "showNat n =
     (if n < 10 then [''0123456789'' ! n]
      else showNat (n div 10) @ [''0123456789'' ! (n mod 10)])"

declare showNat.simps [simp del]

text \<open>\<^verbatim>\<open>array.join(separator)\<close> on strings.\<close>

fun join :: "string \<Rightarrow> string list \<Rightarrow> string" where
  "join sep [] = []"
| "join sep [x] = x"
| "join sep (x # y # ys) = x @ sep @ join sep (y # ys)"

subsection \<open>Sequelize operations on the tables\<close>

text \<open>
  \<^verbatim>\<open>LegalDocument.findOrCreate({ where })\<close> returns the first row that matches the three
  columns, or inserts a row with these columns, a fresh id and the defaults.
\<close>

definition matches :: "string \<Rightarrow> int \<Rightarrow> nat \<Rightarrow> LegalDocument \<Rightarrow> bool" where
  "matches ty y cid doc = (documentType doc = ty \<and> year doc = y \<and> CollectiveId doc = cid)"

definition freshId :: "LegalDocument list \<Rightarrow> nat" where
  "freshId rows = Suc (foldr max (map doc_id rows) 0)"

definition LegalDocument_findOrCreate ::
  "string \<Rightarrow> int \<Rightarrow> nat \<Rightarrow> world \<Rightarrow> LegalDocument \<times> world" where
  "LegalDocument_findOrCreate ty y cid w =
     (case find (matches ty y cid) (LegalDocuments w) of
        Some doc \<Rightarrow> (doc, w)
      | None \<Rightarrow>
          (let doc = \<lparr>doc_id = freshId (LegalDocuments w), documentType = ty, year = y,
                      CollectiveId = cid, requestStatus = NOT_REQUESTED, data = JNull\<rparr>
           in (doc, w\<lparr>LegalDocuments := LegalDocuments w @ [doc]\<rparr>)))"

text \<open>The row that \<^verbatim>\<open>findOrCreate\<close> finds for an account and a year, if there is one.\<close>

definition storedDocument :: "Collective \<Rightarrow> int \<Rightarrow> world \<Rightarrow> LegalDocument option" where
  "storedDocument account y w =
     find (matches US_TAX_FORM y (collective_id account)) (LegalDocuments w)"

text \<open>
  \<^verbatim>\<open>doc.update(values)\<close>: the argument is the instance with the new values set; the row
  with the instance's id is overwritten and the instance is returned.
\<close>

definition LegalDocument_update :: "LegalDocument \<Rightarrow> world \<Rightarrow> LegalDocument \<times> world" where
  "LegalDocument_update doc w =
     (doc, emit (LegalDocument_written doc)
             (w\<lparr>LegalDocuments :=
                  map (\<lambda>row. if doc_id row = doc_id doc then doc else row) (LegalDocuments w)\<rparr>))"

text \<open>
  \<^verbatim>\<open>Collective.findAll\<close> with the legal documents of the year included (a left join):
  every account whose id is in the set, each with its documents of that year.
\<close>

definition Collective_findAll_legalDocuments ::
  "nat set \<Rightarrow> int \<Rightarrow> world \<Rightarrow> (Collective \<times> LegalDocument list) list \<times> world" where
  "Collective_findAll_legalDocuments ids y w =
     (map (\<lambda>c. (c, filter (\<lambda>doc. CollectiveId doc = collective_id c \<and> year doc = y)
                      (LegalDocuments w)))
        (filter (\<lambda>c. collective_id c \<in> ids) (Collectives w)),
      emit (Collective_findAll ids y) w)"

text \<open>
  \<^verbatim>\<open>Expense.findOne\<close> ordered by \<^verbatim>\<open>createdAt DESC\<close>: among the expenses submitted by the
  account whose author is one of the given users, one with the greatest creation time
  (the earliest row of the table among equals).
\<close>

abbreviation expenseWhere :: "nat \<Rightarrow> nat list \<Rightarrow> Expense \<Rightarrow> bool" where
  "expenseWhere cid userIds e \<equiv> FromCollectiveId e = cid \<and> UserId e \<in> set userIds"

definition Expense_findOne_latest :: "nat \<Rightarrow> nat list \<Rightarrow> world \<Rightarrow> Expense option" where
  "Expense_findOne_latest cid userIds w =
     (case filter (expenseWhere cid userIds) (Expenses w) of
        [] \<Rightarrow> None
      | e # es \<Rightarrow> Some (fold (\<lambda>x best. if createdAt best < createdAt x then x else best) es e))"

subsection \<open>\<^verbatim>\<open>findAccountsThatNeedToBeSentTaxForm\<close>\<close>

definition findAccountsThatNeedToBeSentTaxForm ::
  "deps \<Rightarrow> int \<Rightarrow> world \<Rightarrow> Collective list \<times> world" where
  "findAccountsThatNeedToBeSentTaxForm d y w =
     (let collectiveIds = getTaxFormsRequiredForAccounts d y in
      if collectiveIds = {} then ([], w)
      else
        (let (collectives, w') = Collective_findAll_legalDocuments collectiveIds y w in
         (map fst
            (filter (\<lambda>(c, legalDocuments).
                       legalDocuments = [] \<or> list_ex (shouldBeRequested d) legalDocuments)
               collectives),
          w')))"

subsection \<open>\<^verbatim>\<open>getAdminsForAccount\<close>\<close>

text \<open>The callback of \<^verbatim>\<open>adminUsers.filter\<close> logs every user it drops.\<close>

fun filterInternal :: "deps \<Rightarrow> User list \<Rightarrow> world \<Rightarrow> User list \<times> world" where
  "filterInternal d [] w = ([], w)"
| "filterInternal d (user # users) w =
     (if isEmailInternal d (email user)
      then (let (kept, w') = filterInternal d users w in (user # kept, w'))
      else filterInternal d users
             (logger info
                (js (''Tax form: skipping user '' @ showNat (user_id user) @ '' ('' @ email user @
                     '') because it's not an internal Open Collective email and we're not in production''))
                w))"

definition getAdminsForAccount :: "deps \<Rightarrow> Collective \<Rightarrow> world \<Rightarrow> User list \<times> world" where
  "getAdminsForAccount d account w =
     (let adminUsers = getAdminUsers d account in
      if config_env d = ''production'' then (adminUsers, w)
      else filterInternal d adminUsers w)"

subsection \<open>\<^verbatim>\<open>getMainAdminToContact\<close>\<close>

text \<open>The result is \<open>None\<close> where the source returns \<^verbatim>\<open>undefined\<close>.\<close>

definition getMainAdminToContact :: "Collective \<Rightarrow> User list \<Rightarrow> world \<Rightarrow> User option" where
  "getMainAdminToContact account adminUsers w =
     (let mainUser =
        (if length adminUsers > 1 then
           (case Expense_findOne_latest (collective_id account) (map user_id adminUsers) w of
              None \<Rightarrow> None
            | Some latestExpense \<Rightarrow> find (\<lambda>u. user_id u = UserId latestExpense) adminUsers)
         else None)
      in case mainUser of
           Some u \<Rightarrow> Some u
         | None \<Rightarrow> (case adminUsers of [] \<Rightarrow> None | u # _ \<Rightarrow> Some u))"

subsection \<open>\<^verbatim>\<open>saveDocumentStatus\<close>\<close>

definition saveDocumentStatus ::
  "Collective \<Rightarrow> int \<Rightarrow> LEGAL_DOCUMENT_REQUEST_STATUS \<Rightarrow> json \<Rightarrow> world
    \<Rightarrow> LegalDocument \<times> world" where
  "saveDocumentStatus account y status payload w =
     (let (doc, w') = LegalDocument_findOrCreate US_TAX_FORM y (collective_id account) w
      in LegalDocument_update (doc\<lparr>requestStatus := status, data := payload\<rparr>) w')"

subsection \<open>\<^verbatim>\<open>sendHelloWorksUsTaxForm\<close>\<close>

text \<open>
  What the function returns: \<^verbatim>\<open>undefined\<close>, the value of the fulfilled mailer promise,
  or a legal document. The function's own promise is rejected with an error (\<open>Inl\<close>) or
  fulfilled with a result (\<open>Inr\<close>).
\<close>

datatype result = Undefined | EmailSent | Document LegalDocument

text \<open>
  The \<^verbatim>\<open>try\<close> block either throws, which the \<^verbatim>\<open>catch\<close> clause sees, or returns. It
  returns the mailer's promise without awaiting it, so a rejection of that promise is the
  function's outcome and does not reach the \<^verbatim>\<open>catch\<close> clause.
\<close>

datatype completion = Throws jsError | Returns "jsError + result"

definition send :: "deps \<Rightarrow> string \<Rightarrow> string \<Rightarrow> EmailData \<Rightarrow> world \<Rightarrow> completion \<times> world" where
  "send d template recipient emailData w =
     (let w' = emit (EmailLib_send template recipient emailData) w in
      case emailLib_send d template recipient emailData of
        SyncThrow e \<Rightarrow> (Throws e, w')
      | Rejected e \<Rightarrow> (Returns (Inl e), w')
      | Delivered \<Rightarrow>
          (Returns (Inr EmailSent), w'\<lparr>outbox := outbox w' @ [(template, recipient, emailData)]\<rparr>))"

text \<open>The constant \<^verbatim>\<open>participants\<close>: one participant, keyed by the workflow's role id.\<close>

definition participantsFor :: "Collective \<Rightarrow> User \<Rightarrow> (string \<times> Participant) list" where
  "participantsFor account mainUser =
     [(''participant_swVuvW'',
       \<lparr>participant_type = ''email'', participant_value = email mainUser,
        fullName = generateParticipantName account mainUser\<rparr>)]"

text \<open>The constants \<^verbatim>\<open>recipientName\<close>, \<^verbatim>\<open>accountName\<close> and \<^verbatim>\<open>emailData\<close>.\<close>

definition emailDataFor :: "Collective \<Rightarrow> User \<Rightarrow> string \<Rightarrow> EmailData" where
  "emailDataFor account mainUser link =
     \<lparr>documentLink = link,
      recipientName = jsOr (name (collective mainUser)) (legalName (collective mainUser)),
      accountName = jsOr (jsOr (legalName account) (name account)) (Some (slug account))\<rparr>"

text \<open>The argument of \<^verbatim>\<open>createInstance\<close>.\<close>

definition instanceParams ::
  "Collective \<Rightarrow> int \<Rightarrow> string \<Rightarrow> string \<Rightarrow> User list \<Rightarrow> User
    \<Rightarrow> (string \<times> Participant) list \<Rightarrow> CreateInstanceParams" where
  "instanceParams account y cbUrl wfId adminUsers mainUser ps =
     \<lparr>callbackUrl = cbUrl, workflowId = wfId, documentDelivery = True,
      delegatedAuthentication = True, participants = ps,
      metadata = \<lparr>accountType = collective_type account, accountId = collective_id account,
                  adminEmails = join '', '' (map email adminUsers), userId = user_id mainUser,
                  metadata_email = email mainUser, metadata_year = y\<rparr>\<rparr>"

definition tryBlock ::
  "deps \<Rightarrow> HelloWorks \<Rightarrow> Collective \<Rightarrow> int \<Rightarrow> string \<Rightarrow> string \<Rightarrow> User list \<Rightarrow> User
    \<Rightarrow> (string \<times> Participant) list \<Rightarrow> world \<Rightarrow> completion \<times> world" where
  "tryBlock d client account y cbUrl wfId adminUsers mainUser ps w =
     (let params = instanceParams account y cbUrl wfId adminUsers mainUser ps;
          w1 = emit (Client_createInstance params) w
      in case createInstance client params of
           Inl e \<Rightarrow> (Throws e, w1)
         | Inr instance \<Rightarrow>
             (let (document, w2) =
                    saveDocumentStatus account y REQUESTED
                      (JObj [(''helloWorks'', JObj [(''instance'', instance_json instance)])]) w1
              in case steps instance of
                   [] \<Rightarrow> (Throws (typeError d ''url''), w2)
                 | step0 # _ \<Rightarrow>
                     (let w3 = emit (Client_getAuthenticatedLinkForStep (instance_id instance)
                                       (step step0)) w2;
                          (link, w4) =
                            (case getAuthenticatedLinkForStep client (instance_id instance)
                                    (step step0) of
                               Inr authenticated \<Rightarrow> (authenticated, w3)
                             | Inl e \<Rightarrow>
                                 (url step0,
                                  logger warn
                                    (js (''Tax form: error getting authenticated link for '' @
                                         instance_id instance @ '': '' @ message e)) w3));
                          (document', w5) =
                            LegalDocument_update
                              (document\<lparr>data :=
                                 deepMerge (data document)
                                   [(''helloWorks'',
                                     JObj [(''documentLink'', JStr link)])]\<rparr>) w4;
                          emailData = emailDataFor account mainUser link
                      in send d ''tax-form-request'' (email mainUser) emailData w5)))"

text \<open>The \<^verbatim>\<open>catch\<close> clause: log the error and save the document as \<open>ERROR\<close>.\<close>

definition catchBlock ::
  "Collective \<Rightarrow> int \<Rightarrow> User \<Rightarrow> jsError \<Rightarrow> world \<Rightarrow> (jsError + result) \<times> world" where
  "catchBlock account y mainUser err w =
     (let w' = logger error
                 (js (''Failed to initialize tax form for account #'' @
                      showNat (collective_id account) @ '' ('' @ email mainUser @ '')'')) w;
          (doc, w'') =
            saveDocumentStatus account y ERROR
              (JObj [(''error'', JObj [(''message'', JStr (message err)),
                                       (''stack'', JStr (stack err))])]) w'
      in (Inr (Document doc), w''))"

definition sendHelloWorksUsTaxForm ::
  "deps \<Rightarrow> HelloWorks \<Rightarrow> Collective \<Rightarrow> int \<Rightarrow> string \<Rightarrow> string \<Rightarrow> world
    \<Rightarrow> (jsError + result) \<times> world" where
  "sendHelloWorksUsTaxForm d client account y cbUrl wfId w =
     (let (adminUsers, w1) = getAdminsForAccount d account w in
      case getMainAdminToContact account adminUsers w1 of
        None \<Rightarrow>
          (Inr Undefined,
           logger error
             (js (''No contact found for account #'' @ showNat (collective_id account) @ '' (@'') @
              slug account @ js ''). Skipping tax form.'') w1)
      | Some mainUser \<Rightarrow>
          (let ps = participantsFor account mainUser
           in case tryBlock d client account y cbUrl wfId adminUsers mainUser ps w1 of
                (Returns r, w2) \<Rightarrow> (r, w2)
              | (Throws err, w2) \<Rightarrow> catchBlock account y mainUser err w2))"

section \<open>Properties\<close>

subsection \<open>The thresholds\<close>

text \<open>
  C2. For all integer amounts, \<open>amountsRequireTaxForm paypalTotal otherTotal\<close> is true
  exactly when \<open>otherTotal\<close> reaches the general threshold or \<open>paypalTotal\<close> reaches
  the PayPal threshold; one unit below both thresholds it is false.
\<close>

theorem amountsRequireTaxForm_iff:
  "amountsRequireTaxForm k paypalTotal otherTotal =
     (otherTotal \<ge> US_TAX_FORM_THRESHOLD k \<or> paypalTotal \<ge> US_TAX_FORM_THRESHOLD_FOR_PAYPAL k)
   \<and> amountsRequireTaxForm k (US_TAX_FORM_THRESHOLD_FOR_PAYPAL k - 1)
        (US_TAX_FORM_THRESHOLD k - 1) = False"
  by (simp add: amountsRequireTaxForm_def)

theorem amountsRequireTaxForm_iff_witness:
  "amountsRequireTaxForm \<lparr>US_TAX_FORM_THRESHOLD = 60000, US_TAX_FORM_THRESHOLD_FOR_PAYPAL = 2000000\<rparr>
     1999999 60000 = True
   \<and> amountsRequireTaxForm \<lparr>US_TAX_FORM_THRESHOLD = 60000, US_TAX_FORM_THRESHOLD_FOR_PAYPAL = 2000000\<rparr>
     1999999 59999 = False"
  using amountsRequireTaxForm_iff
    [of "\<lparr>US_TAX_FORM_THRESHOLD = 60000, US_TAX_FORM_THRESHOLD_FOR_PAYPAL = 2000000\<rparr>"
        1999999 60000]
  by simp

text \<open>
  C10. \<open>amountsRequireTaxForm\<close> is monotonic in both amounts: once a form is required,
  it stays required when either total grows.
\<close>

theorem amountsRequireTaxForm_mono:
  assumes "paypalTotal \<le> paypalTotal'" and "otherTotal \<le> otherTotal'"
    and "amountsRequireTaxForm k paypalTotal otherTotal"
  shows "amountsRequireTaxForm k paypalTotal' otherTotal'"
  using assms unfolding amountsRequireTaxForm_def by linarith

theorem amountsRequireTaxForm_mono_witness:
  "(100::int) \<le> 250 \<and> (60000::int) \<le> 60001
   \<and> amountsRequireTaxForm \<lparr>US_TAX_FORM_THRESHOLD = 60000, US_TAX_FORM_THRESHOLD_FOR_PAYPAL = 2000000\<rparr>
       100 60000
   \<and> amountsRequireTaxForm \<lparr>US_TAX_FORM_THRESHOLD = 60000, US_TAX_FORM_THRESHOLD_FOR_PAYPAL = 2000000\<rparr>
       250 60001"
proof -
  have a: "(100::int) \<le> 250" and b: "(60000::int) \<le> 60001" by simp_all
  have c: "amountsRequireTaxForm
      \<lparr>US_TAX_FORM_THRESHOLD = 60000, US_TAX_FORM_THRESHOLD_FOR_PAYPAL = 2000000\<rparr> 100 60000"
    by (simp add: amountsRequireTaxForm_def)
  from amountsRequireTaxForm_mono [OF a b c] a b c show ?thesis by simp
qed

subsection \<open>The participant name\<close>

text \<open>
  Strings read from HOL strings have no code unit of the classes that \<^verbatim>\<open>hasUnicode\<close>
  looks for, and \<^verbatim>\<open>truncate\<close> cuts them by code units.
\<close>

lemma hasUnicode_js [simp]: "\<not> hasUnicode (js s)"
proof -
  have "\<not> (isZWJ u \<or> isAstral u \<or> isCombo u \<or> isVar u)" if "u < 256" for u :: nat
    using that by (auto simp: isZWJ_def isAstral_def isCombo_def isVar_def)
  then show ?thesis
    by (auto simp: hasUnicode_def js_def list_ex_iff)
qed

lemma length_js [simp]: "length (js s) = length s"
  by (simp add: js_def)

lemma truncate_str_plain:
  "truncate_str s len =
     (if length (toString s) \<le> len then toString s
      else take (len - 3) (toString s) @ js ''...'')"
  if "\<not> hasUnicode (toString s)" and "3 < len"
proof -
  have "length omission = 3" by (simp add: omission_def)
  moreover have "omission = js ''...''" by (simp add: omission_def)
  ultimately show ?thesis
    using that unfolding truncate_str_def Let_def by (simp del: length_js) 
qed

lemma length_truncate_str_plain:
  "\<not> hasUnicode (toString s) \<Longrightarrow> 3 < len \<Longrightarrow> length (truncate_str s len) \<le> len"
  by (auto simp add: truncate_str_plain)

text \<open>
  For names without surrogates, combining marks, variation selectors and joiners the
  participant name is the legal name cut to 64 code units when a legal name is set; else
  the account's name cut to 64 code units when the account is the contact's own profile;
  else \<open>slug (name)\<close> with the slug and the contact's name each cut to at most 30 code
  units; it never has more than 64 code units.
\<close>

lemma generateParticipantName_plain:
  assumes "\<not> hasUnicode (toString (legalName account))"
    and "\<not> hasUnicode (toString (name account))"
    and "\<not> hasUnicode (slug account)"
    and "\<not> hasUnicode (toString (name (collective mainUser)))"
  shows "(truthy (legalName account) \<longrightarrow>
      generateParticipantName account mainUser =
        (if length (toString (legalName account)) \<le> 64 then toString (legalName account)
         else take 61 (toString (legalName account)) @ js ''...''))
   \<and> (\<not> truthy (legalName account) \<and>
        collective_id account = collective_id (collective mainUser) \<longrightarrow>
      generateParticipantName account mainUser =
        (if length (toString (name account)) \<le> 64 then toString (name account)
         else take 61 (toString (name account)) @ js ''...''))
   \<and> (\<not> truthy (legalName account) \<and>
        collective_id account \<noteq> collective_id (collective mainUser) \<longrightarrow>
      (\<exists>a b. generateParticipantName account mainUser = a @ js '' ('' @ b @ js '')''
         \<and> a = (if length (slug account) \<le> 30 then slug account
                else take 27 (slug account) @ js ''...'')
         \<and> b = (if length (toString (name (collective mainUser))) \<le> 30
                then toString (name (collective mainUser))
                else take 27 (toString (name (collective mainUser))) @ js ''...'')
         \<and> length a \<le> 30 \<and> length b \<le> 30))
   \<and> length (generateParticipantName account mainUser) \<le> 64"
proof -
  have s: "\<not> hasUnicode (toString (Some (slug account)))"
    using assms(3) by (simp add: toString_def)
  have len: "length (generateParticipantName account mainUser) \<le> 64"
  proof -
    have "length (truncate_str (Some (slug account)) 30) \<le> 30"
      and "length (truncate_str (name (collective mainUser)) 30) \<le> 30"
      and "length (truncate_str (legalName account) 64) \<le> 64"
      and "length (truncate_str (name account) 64) \<le> 64"
      using assms s by (simp_all add: length_truncate_str_plain)
    then show ?thesis by (simp add: generateParticipantName_def)
  qed
  have comp: "length (if length (s::ustring) \<le> 30 then s else take 27 s @ js ''...'') \<le> 30" for s
    by simp
  show ?thesis
    using len comp assms s
    by (simp add: generateParticipantName_def truncate_str_plain) (simp add: toString_def)
qed

text \<open>
  A string of \<open>n\<close> times the letter e followed by the combining acute accent U+0301 has
  \<open>n\<close> symbols of two code units each.
\<close>

lemma rsSeq_accented: "rsSeq (concat (replicate n [0x65, 0x301])) = 0"
  by (cases n)
     (simp_all add: rsSeq_def rsOptVar_def reOptMod_def rsCombo_def rsFitz_def orElse_def
        rsOptJoin.simps rsJoin_def isVar_def isCombo_def isZWJ_def Let_def)

lemma stringToArray_accented:
  "stringToArray (concat (replicate n [0x65, 0x301])) = replicate n [0x65, 0x301]"
proof (induction n)
  case 0
  show ?case by (simp add: stringToArray.simps reUnicode_def rsFitz_def rsSymbol_def
        rsNonAstral_def rsCombo_def rsRegional_def regionalIndicator_def rsSurrPair_def
        rsAstral_def orElse_def)
next
  case (Suc n)
  have "reUnicode (0x65 # 0x301 # concat (replicate n [0x65, 0x301])) = Some 2"
    using rsSeq_accented [of n]
    by (simp add: reUnicode_def rsFitz_def rsSymbol_def rsNonAstral_def rsCombo_def
        rsRegional_def regionalIndicator_def rsSurrPair_def rsAstral_def orElse_def
        isAstral_def isCombo_def)
  then show ?case
    using Suc by (simp add: stringToArray.simps [of "0x65 # _"])
qed

text \<open>
  C4. The claim that the participant name has at most 64 characters in every case does not
  hold of the code: \<^verbatim>\<open>truncate\<close> counts symbols, a letter with a combining mark being
  one symbol. For a legal name of 80 times e with U+0301, \<open>generateParticipantName\<close>
  returns the first 61 symbols and the omission: a string of 125 code units, which are
  125 code points.
\<close>

theorem generateParticipantName_overlong:
  "generateParticipantName
     \<lparr>collective_id = 7, name = Some (js ''Eee''),
      legalName = Some (concat (replicate 80 [0x65, 0x301])), slug = js ''eee'',
      collective_type = ''ORGANIZATION''\<rparr>
     \<lparr>user_id = 3, email = ''jane@example.org'',
      collective = \<lparr>collective_id = 30, name = Some (js ''Jane Doe''), legalName = None,
                    slug = js ''jane'', collective_type = ''USER''\<rparr>\<rparr>
   = concat (replicate 61 [0x65, 0x301]) @ js ''...''
   \<and> length (generateParticipantName
     \<lparr>collective_id = 7, name = Some (js ''Eee''),
      legalName = Some (concat (replicate 80 [0x65, 0x301])), slug = js ''eee'',
      collective_type = ''ORGANIZATION''\<rparr>
     \<lparr>user_id = 3, email = ''jane@example.org'',
      collective = \<lparr>collective_id = 30, name = Some (js ''Jane Doe''), legalName = None,
                    slug = js ''jane'', collective_type = ''USER''\<rparr>\<rparr>) = 125"
proof -
  let ?name = "concat (replicate 80 [0x65, 0x301 :: nat])"
  have "hasUnicode (concat (replicate n [0x65, 0x301 :: nat]))
        \<and> concat (replicate n [0x65, 0x301 :: nat]) \<noteq> []" if "0 < n" for n
    using that by (cases n) (simp_all add: hasUnicode_def isCombo_def)
  from this [of 80] have u: "hasUnicode ?name" and ne: "?name \<noteq> []" by simp_all
  have t: "truncate_str (Some ?name) 64 = concat (replicate 61 [0x65, 0x301]) @ js ''...''"
    using u
    by (simp add: truncate_str_def toString_def stringToArray_accented omission_def Let_def)
  have l: "length (concat (replicate 61 [0x65, 0x301 :: nat]) @ js ''...'') = 125"
    by (simp add: length_concat sum_list_replicate)
  show ?thesis
    using ne t l by (simp add: generateParticipantName_def truthy_def)
qed

subsection \<open>The contact\<close>

lemma latest_fold_mem:
  "fold (\<lambda>x best. if createdAt best < createdAt x then x else best) es (e::Expense) \<in> set (e # es)"
proof (induction es arbitrary: e)
  case Nil
  show ?case by simp
next
  case (Cons a es)
  have "fold (\<lambda>x best. if createdAt best < createdAt x then x else best) es
          (if createdAt e < createdAt a then a else e)
        \<in> set ((if createdAt e < createdAt a then a else e) # es)"
    by (rule Cons.IH)
  then show ?case by (auto split: if_splits)
qed

lemma latest_fold_max:
  "x \<in> set (e # es) \<Longrightarrow>
   createdAt x \<le> createdAt (fold (\<lambda>x best. if createdAt best < createdAt x then x else best) es (e::Expense))"
proof (induction es arbitrary: e x)
  case Nil
  then show ?case by simp
next
  case (Cons a es)
  show ?case
  proof (cases "createdAt e < createdAt a")
    case True
    have "x \<in> set (a # es) \<or> x = e" using Cons.prems by auto
    then show ?thesis
    proof
      assume "x \<in> set (a # es)"
      from Cons.IH [OF this] True show ?thesis by simp
    next
      assume "x = e"
      have "createdAt a \<le> createdAt (fold (\<lambda>x best. if createdAt best < createdAt x then x else best) es a)"
        by (rule Cons.IH) simp
      with True \<open>x = e\<close> show ?thesis by simp
    qed
  next
    case False
    have "x \<in> set (e # es) \<or> x = a" using Cons.prems by auto
    then show ?thesis
    proof
      assume "x \<in> set (e # es)"
      from Cons.IH [OF this] False show ?thesis by simp
    next
      assume "x = a"
      have "createdAt e \<le> createdAt (fold (\<lambda>x best. if createdAt best < createdAt x then x else best) es e)"
        by (rule Cons.IH) simp
      with False \<open>x = a\<close> show ?thesis by simp
    qed
  qed
qed

lemma Expense_findOne_latest_None:
  "Expense_findOne_latest (collective_id account) (map user_id adminUsers) w = None
   \<longleftrightarrow> (\<forall>e \<in> set (Expenses w). \<not> expenseWhere (collective_id account) (map user_id adminUsers) e)"
proof -
  let ?P = "\<lambda>e. FromCollectiveId e = collective_id account \<and> UserId e \<in> set (map user_id adminUsers)"
  have "Expense_findOne_latest (collective_id account) (map user_id adminUsers) w = None
        \<longleftrightarrow> filter ?P (Expenses w) = []"
    by (simp add: Expense_findOne_latest_def split: list.splits)
  also have "\<dots> \<longleftrightarrow> (\<forall>e \<in> set (Expenses w). \<not> expenseWhere (collective_id account) (map user_id adminUsers) e)"
    by (simp add: filter_empty_conv)
  finally show ?thesis .
qed

lemma Expense_findOne_latest_Some:
  assumes "Expense_findOne_latest (collective_id account) (map user_id adminUsers) w = Some e"
  shows "e \<in> set (Expenses w) \<and> expenseWhere (collective_id account) (map user_id adminUsers) e
         \<and> (\<forall>e' \<in> set (Expenses w). expenseWhere (collective_id account) (map user_id adminUsers) e' \<longrightarrow> createdAt e' \<le> createdAt e)"
proof -
  let ?P = "\<lambda>e. FromCollectiveId e = collective_id account \<and> UserId e \<in> set (map user_id adminUsers)"
  obtain a as where f: "filter ?P (Expenses w) = a # as"
    and e: "e = fold (\<lambda>x best. if createdAt best < createdAt x then x else best) as a"
    using assms by (auto simp: Expense_findOne_latest_def split: list.splits)
  have mem: "e \<in> set (filter ?P (Expenses w))"
    unfolding f e by (rule latest_fold_mem)
  have mx: "createdAt e' \<le> createdAt e" if "e' \<in> set (filter ?P (Expenses w))" for e'
    using that unfolding f e by (rule latest_fold_max)
  from mem mx show ?thesis by auto
qed

text \<open>
  C3. With more than one admin, \<open>getMainAdminToContact\<close> returns the admin who wrote
  the most recently created expense of the account written by one of the admins, when there
  is such an expense, and the first admin of the list otherwise. With exactly one admin it
  returns that admin whatever the expenses are; with no admin it returns nothing.
\<close>

theorem getMainAdminToContact_spec:
  "(adminUsers = [] \<longrightarrow> getMainAdminToContact account adminUsers w = None)
   \<and> (\<forall>u. adminUsers = [u] \<longrightarrow> getMainAdminToContact account adminUsers w = Some u)
   \<and> (1 < length adminUsers \<and> (\<forall>e \<in> set (Expenses w). \<not> expenseWhere (collective_id account) (map user_id adminUsers) e) \<longrightarrow>
        getMainAdminToContact account adminUsers w = Some (hd adminUsers))
   \<and> (1 < length adminUsers \<and> (\<exists>e \<in> set (Expenses w). expenseWhere (collective_id account) (map user_id adminUsers) e) \<longrightarrow>
        (\<exists>u e. getMainAdminToContact account adminUsers w = Some u
           \<and> u \<in> set adminUsers \<and> e \<in> set (Expenses w)
           \<and> expenseWhere (collective_id account) (map user_id adminUsers) e \<and> UserId e = user_id u
           \<and> (\<forall>e' \<in> set (Expenses w).
                 expenseWhere (collective_id account) (map user_id adminUsers) e' \<longrightarrow> createdAt e' \<le> createdAt e)))"
proof (intro conjI impI allI)
  assume "adminUsers = []"
  then show "getMainAdminToContact account adminUsers w = None"
    by (simp add: getMainAdminToContact_def)
next
  fix u assume "adminUsers = [u]"
  then show "getMainAdminToContact account adminUsers w = Some u"
    by (simp add: getMainAdminToContact_def)
next
  assume a: "1 < length adminUsers \<and> (\<forall>e \<in> set (Expenses w). \<not> expenseWhere (collective_id account) (map user_id adminUsers) e)"
  then have "Expense_findOne_latest (collective_id account) (map user_id adminUsers) w = None"
    by (simp add: Expense_findOne_latest_None)
  moreover from a obtain u us where "adminUsers = u # us" by (cases adminUsers) auto
  ultimately show "getMainAdminToContact account adminUsers w = Some (hd adminUsers)"
    using a by (simp add: getMainAdminToContact_def)
next
  assume a: "1 < length adminUsers \<and> (\<exists>e \<in> set (Expenses w). expenseWhere (collective_id account) (map user_id adminUsers) e)"
  then obtain e where e: "Expense_findOne_latest (collective_id account) (map user_id adminUsers) w = Some e"
    using Expense_findOne_latest_None [of account adminUsers w] by fastforce
  note props = Expense_findOne_latest_Some [OF e]
  then have "\<exists>u \<in> set adminUsers. user_id u = UserId e"
    by auto
  then obtain u where u: "find (\<lambda>u. user_id u = UserId e) adminUsers = Some u"
    by (cases "find (\<lambda>u. user_id u = UserId e) adminUsers") (auto simp: find_None_iff)
  then have um: "u \<in> set adminUsers" and uid: "user_id u = UserId e"
    by (auto simp: find_Some_iff)
  have "getMainAdminToContact account adminUsers w = Some u"
    using a e u by (simp add: getMainAdminToContact_def)
  with um uid props
  show "\<exists>u e. getMainAdminToContact account adminUsers w = Some u
           \<and> u \<in> set adminUsers \<and> e \<in> set (Expenses w)
           \<and> expenseWhere (collective_id account) (map user_id adminUsers) e \<and> UserId e = user_id u
           \<and> (\<forall>e' \<in> set (Expenses w).
                 expenseWhere (collective_id account) (map user_id adminUsers) e' \<longrightarrow> createdAt e' \<le> createdAt e)"
    by (intro exI [of _ u] exI [of _ e]) simp
qed

theorem getMainAdminToContact_spec_witness:
  "getMainAdminToContact
     \<lparr>collective_id = 7, name = Some (js ''Acme''), legalName = None, slug = js ''acme'',
      collective_type = ''ORGANIZATION''\<rparr>
     [\<lparr>user_id = 1, email = ''a@x.com'',
       collective = \<lparr>collective_id = 11, name = Some (js ''A''), legalName = None, slug = js ''a'',
                     collective_type = ''USER''\<rparr>\<rparr>,
      \<lparr>user_id = 2, email = ''b@x.com'',
       collective = \<lparr>collective_id = 12, name = Some (js ''B''), legalName = None, slug = js ''b'',
                     collective_type = ''USER''\<rparr>\<rparr>,
      \<lparr>user_id = 3, email = ''c@x.com'',
       collective = \<lparr>collective_id = 13, name = Some (js ''C''), legalName = None, slug = js ''c'',
                     collective_type = ''USER''\<rparr>\<rparr>]
     \<lparr>Collectives = [], LegalDocuments = [],
      Expenses = [\<lparr>expense_id = 1, FromCollectiveId = 7, UserId = 2, createdAt = 100\<rparr>],
      outbox = [], trace = []\<rparr>
   = Some \<lparr>user_id = 2, email = ''b@x.com'',
       collective = \<lparr>collective_id = 12, name = Some (js ''B''), legalName = None, slug = js ''b'',
                     collective_type = ''USER''\<rparr>\<rparr>"
  using getMainAdminToContact_spec
    [of "[\<lparr>user_id = 1, email = ''a@x.com'',
       collective = \<lparr>collective_id = 11, name = Some (js ''A''), legalName = None, slug = js ''a'',
                     collective_type = ''USER''\<rparr>\<rparr>,
      \<lparr>user_id = 2, email = ''b@x.com'',
       collective = \<lparr>collective_id = 12, name = Some (js ''B''), legalName = None, slug = js ''b'',
                     collective_type = ''USER''\<rparr>\<rparr>,
      \<lparr>user_id = 3, email = ''c@x.com'',
       collective = \<lparr>collective_id = 13, name = Some (js ''C''), legalName = None, slug = js ''c'',
                     collective_type = ''USER''\<rparr>\<rparr>]"
     "\<lparr>collective_id = 7, name = Some (js ''Acme''), legalName = None, slug = js ''acme'',
      collective_type = ''ORGANIZATION''\<rparr>"
     "\<lparr>Collectives = [], LegalDocuments = [],
      Expenses = [\<lparr>expense_id = 1, FromCollectiveId = 7, UserId = 2, createdAt = 100\<rparr>],
      outbox = [], trace = []\<rparr>"]
  by auto

subsection \<open>The accounts that need a form\<close>

lemma findAccounts_fst:
  "fst (findAccountsThatNeedToBeSentTaxForm d y w) =
     filter (\<lambda>c. collective_id c \<in> getTaxFormsRequiredForAccounts d y
                 \<and> ((\<forall>doc \<in> set (LegalDocuments w).
                        \<not> (CollectiveId doc = collective_id c \<and> year doc = y))
                    \<or> (\<exists>doc \<in> set (LegalDocuments w).
                        CollectiveId doc = collective_id c \<and> year doc = y
                        \<and> shouldBeRequested d doc)))
       (Collectives w)"
  by (auto simp: findAccountsThatNeedToBeSentTaxForm_def Collective_findAll_legalDocuments_def
        Let_def filter_map comp_def filter_empty_conv list_ex_iff
      intro!: filter_cong)

text \<open>
  C8. \<open>findAccountsThatNeedToBeSentTaxForm\<close> returns exactly the accounts of the
  candidate set that have no legal document for the year or have one that should be
  requested; an account whose documents of the year should all not be requested is left
  out. When the candidate set is empty the result is empty and the accounts are not loaded:
  the world, with its trace, is unchanged.
\<close>

theorem findAccountsThatNeedToBeSentTaxForm_spec:
  "(\<forall>c \<in> set (fst (findAccountsThatNeedToBeSentTaxForm d y w)).
      c \<in> set (Collectives w) \<and> collective_id c \<in> getTaxFormsRequiredForAccounts d y
      \<and> ((\<forall>doc \<in> set (LegalDocuments w).
              \<not> (CollectiveId doc = collective_id c \<and> year doc = y))
          \<or> (\<exists>doc \<in> set (LegalDocuments w).
                CollectiveId doc = collective_id c \<and> year doc = y \<and> shouldBeRequested d doc)))
   \<and> (\<forall>c \<in> set (Collectives w).
        collective_id c \<in> getTaxFormsRequiredForAccounts d y
        \<and> ((\<forall>doc \<in> set (LegalDocuments w).
              \<not> (CollectiveId doc = collective_id c \<and> year doc = y))
          \<or> (\<exists>doc \<in> set (LegalDocuments w).
                CollectiveId doc = collective_id c \<and> year doc = y \<and> shouldBeRequested d doc))
        \<longrightarrow> c \<in> set (fst (findAccountsThatNeedToBeSentTaxForm d y w)))
   \<and> (\<forall>c. (\<exists>doc \<in> set (LegalDocuments w). CollectiveId doc = collective_id c \<and> year doc = y)
          \<and> (\<forall>doc \<in> set (LegalDocuments w).
                CollectiveId doc = collective_id c \<and> year doc = y \<longrightarrow> \<not> shouldBeRequested d doc)
        \<longrightarrow> c \<notin> set (fst (findAccountsThatNeedToBeSentTaxForm d y w)))
   \<and> (getTaxFormsRequiredForAccounts d y = {} \<longrightarrow>
        findAccountsThatNeedToBeSentTaxForm d y w = ([], w))
   \<and> (getTaxFormsRequiredForAccounts d y \<noteq> {} \<longrightarrow>
        snd (findAccountsThatNeedToBeSentTaxForm d y w) =
          w\<lparr>trace := trace w @ [Collective_findAll (getTaxFormsRequiredForAccounts d y) y]\<rparr>)"
proof (intro conjI)
  show "getTaxFormsRequiredForAccounts d y = {} \<longrightarrow>
        findAccountsThatNeedToBeSentTaxForm d y w = ([], w)"
    by (simp add: findAccountsThatNeedToBeSentTaxForm_def)
  show "getTaxFormsRequiredForAccounts d y \<noteq> {} \<longrightarrow>
        snd (findAccountsThatNeedToBeSentTaxForm d y w) =
          w\<lparr>trace := trace w @ [Collective_findAll (getTaxFormsRequiredForAccounts d y) y]\<rparr>"
    by (simp add: findAccountsThatNeedToBeSentTaxForm_def Collective_findAll_legalDocuments_def
          emit_def Let_def)
qed (auto simp: findAccounts_fst)

theorem findAccountsThatNeedToBeSentTaxForm_spec_witness:
  "(let d = \<lparr>config_env = ''production'', isEmailInternal = (\<lambda>_. False),
              getAdminUsers = (\<lambda>_. []),
              shouldBeRequested =
                (\<lambda>doc. requestStatus doc = NOT_REQUESTED \<or> requestStatus doc = ERROR),
              getTaxFormsRequiredForAccounts = (\<lambda>y. if y = 2024 then {1, 2, 3} else {}),
              emailLib_send = (\<lambda>_ _ _. Delivered),
              typeError = (\<lambda>p. \<lparr>message = p, stack = []\<rparr>)\<rparr>;
        c1 = \<lparr>collective_id = 1, name = Some (js ''A''), legalName = None, slug = js ''a'',
              collective_type = ''USER''\<rparr>;
        c2 = \<lparr>collective_id = 2, name = Some (js ''B''), legalName = None, slug = js ''b'',
              collective_type = ''USER''\<rparr>;
        c3 = \<lparr>collective_id = 3, name = Some (js ''C''), legalName = None, slug = js ''c'',
              collective_type = ''USER''\<rparr>;
        w = \<lparr>Collectives = [c1, c2, c3],
             LegalDocuments =
               [\<lparr>doc_id = 1, documentType = US_TAX_FORM, year = 2024, CollectiveId = 2,
                 requestStatus = ERROR, data = JNull\<rparr>,
                \<lparr>doc_id = 2, documentType = US_TAX_FORM, year = 2024, CollectiveId = 3,
                 requestStatus = REQUESTED, data = JNull\<rparr>],
             Expenses = [], outbox = [], trace = []\<rparr>
    in fst (findAccountsThatNeedToBeSentTaxForm d 2024 w) = [c1, c2]
       \<and> c3 \<notin> set (fst (findAccountsThatNeedToBeSentTaxForm d 2024 w))
       \<and> trace (snd (findAccountsThatNeedToBeSentTaxForm d 2024 w)) =
           [Collective_findAll {1, 2, 3} 2024]
       \<and> findAccountsThatNeedToBeSentTaxForm d 2023 w = ([], w))"
  using findAccountsThatNeedToBeSentTaxForm_spec
    [of "\<lparr>config_env = ''production'', isEmailInternal = (\<lambda>_. False),
              getAdminUsers = (\<lambda>_. []),
              shouldBeRequested =
                (\<lambda>doc. requestStatus doc = NOT_REQUESTED \<or> requestStatus doc = ERROR),
              getTaxFormsRequiredForAccounts = (\<lambda>y. if y = 2024 then {1, 2, 3} else {}),
              emailLib_send = (\<lambda>_ _ _. Delivered),
              typeError = (\<lambda>p. \<lparr>message = p, stack = []\<rparr>)\<rparr>"
        2024
        "\<lparr>Collectives =
            [\<lparr>collective_id = 1, name = Some (js ''A''), legalName = None, slug = js ''a'',
              collective_type = ''USER''\<rparr>,
             \<lparr>collective_id = 2, name = Some (js ''B''), legalName = None, slug = js ''b'',
              collective_type = ''USER''\<rparr>,
             \<lparr>collective_id = 3, name = Some (js ''C''), legalName = None, slug = js ''c'',
              collective_type = ''USER''\<rparr>],
          LegalDocuments =
               [\<lparr>doc_id = 1, documentType = US_TAX_FORM, year = 2024, CollectiveId = 2,
                 requestStatus = ERROR, data = JNull\<rparr>,
                \<lparr>doc_id = 2, documentType = US_TAX_FORM, year = 2024, CollectiveId = 3,
                 requestStatus = REQUESTED, data = JNull\<rparr>],
          Expenses = [], outbox = [], trace = []\<rparr>"]
  by (simp add: findAccountsThatNeedToBeSentTaxForm_def Collective_findAll_legalDocuments_def
        emit_def Let_def)

subsection \<open>No contact\<close>

lemma filterInternal_world:
  "\<exists>logs. snd (filterInternal d users w) = w\<lparr>trace := trace w @ logs\<rparr>
      \<and> (\<forall>e \<in> set logs. \<exists>m. e = Log info m)"
proof (induction users arbitrary: w)
  case Nil
  have "snd (filterInternal d [] w) = w\<lparr>trace := trace w @ []\<rparr>" by simp
  then show ?case by fastforce
next
  case (Cons user users)
  show ?case
  proof (cases "isEmailInternal d (email user)")
    case True
    then have "snd (filterInternal d (user # users) w) = snd (filterInternal d users w)"
      by (simp add: case_prod_unfold Let_def)
    with Cons.IH [of w] show ?thesis by simp
  next
    case False
    define msg where "msg = js (''Tax form: skipping user '' @ showNat (user_id user) @ '' ('' @ email user @
                 '') because it's not an internal Open Collective email and we're not in production'')"
    from False have eq: "snd (filterInternal d (user # users) w) = snd (filterInternal d users (logger info msg w))"
      by (simp add: msg_def)
    from Cons.IH [of "logger info msg w"] obtain logs where
      l: "snd (filterInternal d users (logger info msg w)) =
            (logger info msg w)\<lparr>trace := trace (logger info msg w) @ logs\<rparr>"
      and a: "\<forall>e \<in> set logs. \<exists>m. e = Log info m"
      by blast
    have "snd (filterInternal d (user # users) w) = w\<lparr>trace := trace w @ (Log info msg # logs)\<rparr>"
      unfolding eq l by (simp add: logger_def emit_def)
    moreover have "\<forall>e \<in> set (Log info msg # logs). \<exists>m. e = Log info m"
      using a by simp
    ultimately show ?thesis by blast
  qed
qed

lemma getAdminsForAccount_world:
  "\<exists>logs. snd (getAdminsForAccount d account w) = w\<lparr>trace := trace w @ logs\<rparr>
      \<and> (\<forall>e \<in> set logs. \<exists>m. e = Log info m)"
proof (cases "config_env d = ''production''")
  case True
  then have "snd (getAdminsForAccount d account w) = w\<lparr>trace := trace w @ []\<rparr>"
    by (simp add: getAdminsForAccount_def)
  then show ?thesis by fastforce
next
  case False
  then show ?thesis
    using filterInternal_world [of d "getAdminUsers d account" w]
    by (simp add: getAdminsForAccount_def)
qed

lemma getMainAdminToContact_None_iff:
  "getMainAdminToContact account adminUsers w = None \<longleftrightarrow> adminUsers = []"
  by (cases adminUsers) (auto simp: getMainAdminToContact_def Let_def split: option.splits)

text \<open>
  C9. When no admin is found to contact, \<open>sendHelloWorksUsTaxForm\<close> returns
  \<^verbatim>\<open>undefined\<close> and the world differs from the one it started in only by log lines,
  the last of which is the error line of the skip: no request is sent to HelloWorks, no
  email is sent, and no legal document is created or updated.
\<close>

theorem sendHelloWorksUsTaxForm_no_contact:
  assumes "getMainAdminToContact account (fst (getAdminsForAccount d account w))
             (snd (getAdminsForAccount d account w)) = None"
  shows "\<exists>logs.
           sendHelloWorksUsTaxForm d client account y cbUrl wfId w =
             (Inr Undefined, w\<lparr>trace := trace w @ logs\<rparr>)
           \<and> (\<forall>e \<in> set logs. \<exists>l m. e = Log l m)
           \<and> last logs =
               Log error (js (''No contact found for account #'' @ showNat (collective_id account) @
                              '' (@'') @ slug account @ js ''). Skipping tax form.'')"
proof -
  define msg where "msg = js (''No contact found for account #'' @ showNat (collective_id account) @
                              '' (@'') @ slug account @ js ''). Skipping tax form.''"
  obtain logs where w1: "snd (getAdminsForAccount d account w) = w\<lparr>trace := trace w @ logs\<rparr>"
    and logs: "\<forall>e \<in> set logs. \<exists>m. e = Log info m"
    using getAdminsForAccount_world by blast
  have "sendHelloWorksUsTaxForm d client account y cbUrl wfId w =
          (Inr Undefined, logger error msg (snd (getAdminsForAccount d account w)))"
    using assms by (simp add: sendHelloWorksUsTaxForm_def case_prod_unfold msg_def)
  also have "logger error msg (snd (getAdminsForAccount d account w)) =
          w\<lparr>trace := trace w @ (logs @ [Log error msg])\<rparr>"
    unfolding w1 by (simp add: logger_def emit_def)
  finally have "sendHelloWorksUsTaxForm d client account y cbUrl wfId w =
             (Inr Undefined, w\<lparr>trace := trace w @ (logs @ [Log error msg])\<rparr>)" .
  moreover have "\<forall>e \<in> set (logs @ [Log error msg]). \<exists>l m. e = Log l m"
    using logs by auto
  moreover have "last (logs @ [Log error msg]) = Log error msg" by simp
  ultimately show ?thesis unfolding msg_def by blast
qed

theorem sendHelloWorksUsTaxForm_no_contact_witness:
  "sendHelloWorksUsTaxForm
     \<lparr>config_env = ''staging'', isEmailInternal = (\<lambda>e. e = ''dev@opencollective.com''),
         getAdminUsers =
           (\<lambda>_. [\<lparr>user_id = 3, email = ''a@x.com'',
                   collective = \<lparr>collective_id = 30, name = Some (js ''Ann''), legalName = None,
                                 slug = js ''ann'', collective_type = ''USER''\<rparr>\<rparr>]),
         shouldBeRequested = (\<lambda>doc. requestStatus doc = ERROR),
         getTaxFormsRequiredForAccounts = (\<lambda>_. {7}),
         emailLib_send = (\<lambda>_ _ _. Delivered),
         typeError = (\<lambda>p. \<lparr>message = p, stack = []\<rparr>)\<rparr>
     \<lparr>createInstance = (\<lambda>_. Inr \<lparr>instance_id = ''i1'', steps = []\<rparr>),
         getAuthenticatedLinkForStep = (\<lambda>_ _. Inr ''https://signed'')\<rparr>
     \<lparr>collective_id = 7, name = Some (js ''Acme''), legalName = Some (js ''Acme LLC''), slug = js ''acme'',
         collective_type = ''ORGANIZATION''\<rparr>
     2024 ''https://cb'' ''wf''
     \<lparr>Collectives = [], LegalDocuments = [], Expenses = [], outbox = [], trace = []\<rparr>
   = (Inr Undefined,
      \<lparr>Collectives = [], LegalDocuments = [], Expenses = [], outbox = [],
       trace =
         [Log info (js (''Tax form: skipping user 3 (a@x.com) because it's not an internal '' @
                        ''Open Collective email and we're not in production'')),
          Log error (js ''No contact found for account #7 (@acme). Skipping tax form.'')]\<rparr>)"
  using sendHelloWorksUsTaxForm_no_contact
    [of "\<lparr>collective_id = 7, name = Some (js ''Acme''), legalName = Some (js ''Acme LLC''), slug = js ''acme'',
         collective_type = ''ORGANIZATION''\<rparr>"
        "\<lparr>config_env = ''staging'', isEmailInternal = (\<lambda>e. e = ''dev@opencollective.com''),
         getAdminUsers =
           (\<lambda>_. [\<lparr>user_id = 3, email = ''a@x.com'',
                   collective = \<lparr>collective_id = 30, name = Some (js ''Ann''), legalName = None,
                                 slug = js ''ann'', collective_type = ''USER''\<rparr>\<rparr>]),
         shouldBeRequested = (\<lambda>doc. requestStatus doc = ERROR),
         getTaxFormsRequiredForAccounts = (\<lambda>_. {7}),
         emailLib_send = (\<lambda>_ _ _. Delivered),
         typeError = (\<lambda>p. \<lparr>message = p, stack = []\<rparr>)\<rparr>"
        "\<lparr>Collectives = [], LegalDocuments = [], Expenses = [], outbox = [], trace = []\<rparr>"
        "\<lparr>createInstance = (\<lambda>_. Inr \<lparr>instance_id = ''i1'', steps = []\<rparr>),
         getAuthenticatedLinkForStep = (\<lambda>_ _. Inr ''https://signed'')\<rparr>"
        2024 "''https://cb''" "''wf''"]
  by (simp add: sendHelloWorksUsTaxForm_def getAdminsForAccount_def getMainAdminToContact_def
        logger_def emit_def showNat.simps js_def)

subsection \<open>Saving a document\<close>

lemma find_overwrite:
  "find P rows = Some r \<Longrightarrow> P r' \<Longrightarrow> doc_id r' = doc_id r \<Longrightarrow>
   find P (map (\<lambda>row. if doc_id row = doc_id r' then r' else row) rows) = Some (r'::LegalDocument)"
  by (induction rows) (auto split: if_splits)

lemma find_append_new:
  "find P rows = None \<Longrightarrow> P r \<Longrightarrow> find P (rows @ [r]) = Some r"
  by (induction rows) (auto split: if_splits)

lemma storedDocument_emit [simp]:
  "storedDocument account y (emit e w) = storedDocument account y w"
  by (simp add: storedDocument_def emit_def)

lemma storedDocument_logger [simp]:
  "storedDocument account y (logger l m w) = storedDocument account y w"
  by (simp add: logger_def)

lemma LegalDocument_update_eq:
  "LegalDocument_update doc w =
     (doc, w\<lparr>LegalDocuments :=
               map (\<lambda>row. if doc_id row = doc_id doc then doc else row) (LegalDocuments w),
             trace := trace w @ [LegalDocument_written doc]\<rparr>)"
  by (simp add: LegalDocument_update_def emit_def)

lemma saveDocumentStatus_props:
  "\<exists>doc tbl.
     saveDocumentStatus account y st p w =
       (doc, w\<lparr>LegalDocuments := tbl, trace := trace w @ [LegalDocument_written doc]\<rparr>)
     \<and> requestStatus doc = st \<and> data doc = p
     \<and> matches US_TAX_FORM y (collective_id account) doc
     \<and> find (matches US_TAX_FORM y (collective_id account)) tbl = Some doc
     \<and> length tbl =
         (if \<exists>row \<in> set (LegalDocuments w). matches US_TAX_FORM y (collective_id account) row
          then length (LegalDocuments w) else Suc (length (LegalDocuments w)))"
proof (cases "find (matches US_TAX_FORM y (collective_id account)) (LegalDocuments w)")
  case None
  let ?P = "matches US_TAX_FORM y (collective_id account)"
  define new where "new = \<lparr>doc_id = freshId (LegalDocuments w), documentType = US_TAX_FORM,
     year = y, CollectiveId = collective_id account, requestStatus = NOT_REQUESTED, data = JNull\<rparr>"
  define doc where "doc = new\<lparr>requestStatus := st, data := p\<rparr>"
  define tbl where "tbl = map (\<lambda>row. if doc_id row = doc_id doc then doc else row) (LegalDocuments w @ [new])"
  have m: "?P new" "?P doc" by (simp_all add: matches_def new_def doc_def)
  have "find ?P (LegalDocuments w @ [new]) = Some new"
    using None m by (simp add: find_append_new)
  then have f: "find ?P tbl = Some doc"
    unfolding tbl_def using m by (intro find_overwrite) (simp_all add: doc_def)
  have eq: "saveDocumentStatus account y st p w =
       (doc, w\<lparr>LegalDocuments := tbl, trace := trace w @ [LegalDocument_written doc]\<rparr>)"
    using None
    by (simp add: saveDocumentStatus_def LegalDocument_findOrCreate_def LegalDocument_update_eq
          Let_def new_def doc_def tbl_def)
  have "\<not> (\<exists>row \<in> set (LegalDocuments w). ?P row)"
    using None by (simp add: find_None_iff)
  then have "length tbl = (if \<exists>row \<in> set (LegalDocuments w). ?P row
          then length (LegalDocuments w) else Suc (length (LegalDocuments w)))"
    by (simp add: tbl_def)
  with eq f m show ?thesis by (intro exI [of _ doc] exI [of _ tbl]) (simp add: doc_def)
next
  case (Some old)
  let ?P = "matches US_TAX_FORM y (collective_id account)"
  define doc where "doc = old\<lparr>requestStatus := st, data := p\<rparr>"
  define tbl where "tbl = map (\<lambda>row. if doc_id row = doc_id doc then doc else row) (LegalDocuments w)"
  have o: "?P old" "old \<in> set (LegalDocuments w)" using Some by (auto simp: find_Some_iff)
  then have m: "?P doc" by (simp add: matches_def doc_def)
  have f: "find ?P tbl = Some doc"
    unfolding tbl_def using Some m by (intro find_overwrite) (simp_all add: doc_def)
  have eq: "saveDocumentStatus account y st p w =
       (doc, w\<lparr>LegalDocuments := tbl, trace := trace w @ [LegalDocument_written doc]\<rparr>)"
    using Some
    by (simp add: saveDocumentStatus_def LegalDocument_findOrCreate_def LegalDocument_update_eq
          Let_def doc_def tbl_def)
  have "length tbl = (if \<exists>row \<in> set (LegalDocuments w). ?P row
          then length (LegalDocuments w) else Suc (length (LegalDocuments w)))"
    using o by (auto simp: tbl_def)
  with eq f m show ?thesis by (intro exI [of _ doc] exI [of _ tbl]) (simp add: doc_def)
qed

subsection \<open>Running the try block\<close>

text \<open>
  The stored form of an instance has the keys \<open>id\<close>, \<open>steps\<close>, \<open>step\<close> and \<open>url\<close>
  only, so cloning it gives it back, and merging the document link into the data saved
  with the instance keeps the instance.
\<close>

lemma assign_new_name:
  "key \<noteq> ''__proto__'' \<Longrightarrow> key \<notin> fst ` set ps \<Longrightarrow> arrayIndex key = None \<Longrightarrow>
   assign key v ps = ps @ [(key, v)]"
  by (simp add: assign_def)

lemma clone_steps:
  "cloneAll (map (\<lambda>s. JObj [(''step'', JStr (step s)), (''url'', JStr (url s))]) xs) =
   map (\<lambda>s. JObj [(''step'', JStr (step s)), (''url'', JStr (url s))]) xs"
  by (induction xs)
     (simp_all add: assign_new_name arrayIndex_def digit_def propertyIsUnsafe_def
        propertyIsOnObject_def objectPrototypeKeys_def)

lemma clone_instance_json: "clone (instance_json i) = instance_json i"
  by (simp add: instance_json_def clone_steps assign_new_name arrayIndex_def digit_def
        propertyIsUnsafe_def propertyIsOnObject_def objectPrototypeKeys_def)

lemma deepMerge_documentLink:
  "deepMerge (JObj [(''helloWorks'', JObj [(''instance'', instance_json i)])])
     [(''helloWorks'', JObj [(''documentLink'', JStr link)])]
   = JObj [(''helloWorks'', JObj [(''instance'', instance_json i), (''documentLink'', JStr link)])]"
  by (simp add: clone_instance_json assign_new_name assign_def arrayIndex_def digit_def
        propertyIsUnsafe_def propertyIsOnObject_def ownProperty_def objectPrototypeKeys_def)

lemma catchBlock_props:
  "\<exists>doc tbl.
     catchBlock account y mainUser err w =
       (Inr (Document doc),
        w\<lparr>LegalDocuments := tbl,
          trace := trace w @
            [Log error (js (''Failed to initialize tax form for account #'' @
                        showNat (collective_id account) @ '' ('' @ email mainUser @ '')'')),
             LegalDocument_written doc]\<rparr>)
     \<and> requestStatus doc = ERROR
     \<and> data doc = JObj [(''error'', JObj [(''message'', JStr (message err)),
                                           (''stack'', JStr (stack err))])]
     \<and> find (matches US_TAX_FORM y (collective_id account)) tbl = Some doc"
proof -
  define msg where "msg = js (''Failed to initialize tax form for account #'' @
                        showNat (collective_id account) @ '' ('' @ email mainUser @ '')'')"
  define p where "p = JObj [(''error'', JObj [(''message'', JStr (message err)),
                                           (''stack'', JStr (stack err))])]"
  obtain doc tbl where
    s: "saveDocumentStatus account y ERROR p (logger error msg w) =
       (doc, (logger error msg w)\<lparr>LegalDocuments := tbl,
              trace := trace (logger error msg w) @ [LegalDocument_written doc]\<rparr>)"
    and props: "requestStatus doc = ERROR" "data doc = p"
      "find (matches US_TAX_FORM y (collective_id account)) tbl = Some doc"
    using saveDocumentStatus_props [of account y ERROR p "logger error msg w"] by blast
  have "catchBlock account y mainUser err w =
       (Inr (Document doc),
        w\<lparr>LegalDocuments := tbl, trace := trace w @ [Log error msg, LegalDocument_written doc]\<rparr>)"
    unfolding catchBlock_def msg_def [symmetric] p_def [symmetric]
    using s by (simp add: logger_def emit_def)
  with props show ?thesis unfolding msg_def p_def by blast
qed

lemma tryBlock_create_fails:
  assumes "createInstance client (instanceParams account y cbUrl wfId adminUsers mainUser ps) = Inl e"
  shows "tryBlock d client account y cbUrl wfId adminUsers mainUser ps w =
           (Throws e,
            w\<lparr>trace := trace w @
               [Client_createInstance (instanceParams account y cbUrl wfId adminUsers mainUser ps)]\<rparr>)"
  using assms by (simp add: tryBlock_def emit_def)

lemma tryBlock_created:
  assumes "createInstance client (instanceParams account y cbUrl wfId adminUsers mainUser ps)
             = Inr instance"
  shows "\<exists>doc tbl.
     requestStatus doc = REQUESTED
     \<and> data doc = JObj [(''helloWorks'', JObj [(''instance'', instance_json instance)])]
     \<and> matches US_TAX_FORM y (collective_id account) doc
     \<and> find (matches US_TAX_FORM y (collective_id account)) tbl = Some doc
     \<and> tryBlock d client account y cbUrl wfId adminUsers mainUser ps w =
        (case steps instance of
           [] \<Rightarrow>
             (Throws (typeError d ''url''),
              w\<lparr>LegalDocuments := tbl,
                trace := trace w @
                  [Client_createInstance (instanceParams account y cbUrl wfId adminUsers mainUser ps),
                   LegalDocument_written doc]\<rparr>)
         | step0 # _ \<Rightarrow>
             send d ''tax-form-request'' (email mainUser)
               (emailDataFor account mainUser
                  (case getAuthenticatedLinkForStep client (instance_id instance) (step step0) of
                     Inr authenticated \<Rightarrow> authenticated | Inl _ \<Rightarrow> url step0))
               (snd (LegalDocument_update
                  (doc\<lparr>data := JObj [(''helloWorks'',
                      JObj [(''instance'', instance_json instance),
                            (''documentLink'',
                             JStr (case getAuthenticatedLinkForStep client (instance_id instance)
                                          (step step0) of
                                     Inr authenticated \<Rightarrow> authenticated | Inl _ \<Rightarrow> url step0))])]\<rparr>)
                  (w\<lparr>LegalDocuments := tbl,
                     trace := trace w @
                       [Client_createInstance
                          (instanceParams account y cbUrl wfId adminUsers mainUser ps),
                        LegalDocument_written doc,
                        Client_getAuthenticatedLinkForStep (instance_id instance) (step step0)] @
                       (case getAuthenticatedLinkForStep client (instance_id instance)
                               (step step0) of
                          Inr _ \<Rightarrow> []
                        | Inl e \<Rightarrow>
                            [Log warn (js (''Tax form: error getting authenticated link for '' @
                                       instance_id instance @ '': '' @ message e))])\<rparr>))))"
proof -
  define params where "params = instanceParams account y cbUrl wfId adminUsers mainUser ps"
  define w1 where "w1 = emit (Client_createInstance params) w"
  define snap where "snap = JObj [(''helloWorks'', JObj [(''instance'', instance_json instance)])]"
  obtain doc tbl where
    s: "saveDocumentStatus account y REQUESTED snap w1 =
         (doc, w1\<lparr>LegalDocuments := tbl, trace := trace w1 @ [LegalDocument_written doc]\<rparr>)"
    and props: "requestStatus doc = REQUESTED" "data doc = snap"
      "matches US_TAX_FORM y (collective_id account) doc"
      "find (matches US_TAX_FORM y (collective_id account)) tbl = Some doc"
    using saveDocumentStatus_props [of account y REQUESTED snap w1] by blast
  have "tryBlock d client account y cbUrl wfId adminUsers mainUser ps w =
        (case steps instance of
           [] \<Rightarrow>
             (Throws (typeError d ''url''),
              w\<lparr>LegalDocuments := tbl,
                trace := trace w @ [Client_createInstance params, LegalDocument_written doc]\<rparr>)
         | step0 # _ \<Rightarrow>
             send d ''tax-form-request'' (email mainUser)
               (emailDataFor account mainUser
                  (case getAuthenticatedLinkForStep client (instance_id instance) (step step0) of
                     Inr authenticated \<Rightarrow> authenticated | Inl _ \<Rightarrow> url step0))
               (snd (LegalDocument_update
                  (doc\<lparr>data := JObj [(''helloWorks'',
                      JObj [(''instance'', instance_json instance),
                            (''documentLink'',
                             JStr (case getAuthenticatedLinkForStep client (instance_id instance)
                                          (step step0) of
                                     Inr authenticated \<Rightarrow> authenticated | Inl _ \<Rightarrow> url step0))])]\<rparr>)
                  (w\<lparr>LegalDocuments := tbl,
                     trace := trace w @
                       [Client_createInstance params,
                        LegalDocument_written doc,
                        Client_getAuthenticatedLinkForStep (instance_id instance) (step step0)] @
                       (case getAuthenticatedLinkForStep client (instance_id instance)
                               (step step0) of
                          Inr _ \<Rightarrow> []
                        | Inl e \<Rightarrow>
                            [Log warn (js (''Tax form: error getting authenticated link for '' @
                                       instance_id instance @ '': '' @ message e))])\<rparr>))))"
    unfolding tryBlock_def params_def [symmetric] snap_def [symmetric] Let_def
    unfolding w1_def [symmetric]
    using assms [folded params_def] s props(2)
    by (simp add: w1_def snap_def emit_def logger_def deepMerge_documentLink
             LegalDocument_update_eq
           del: deepMerge.simps split: list.splits sum.splits)
  with props show ?thesis unfolding params_def snap_def by blast
qed

lemma send_eq:
  "send d t r ed w =
     (case emailLib_send d t r ed of
        SyncThrow e \<Rightarrow> (Throws e, w\<lparr>trace := trace w @ [EmailLib_send t r ed]\<rparr>)
      | Rejected e \<Rightarrow> (Returns (Inl e), w\<lparr>trace := trace w @ [EmailLib_send t r ed]\<rparr>)
      | Delivered \<Rightarrow>
          (Returns (Inr EmailSent),
           w\<lparr>trace := trace w @ [EmailLib_send t r ed], outbox := outbox w @ [(t, r, ed)]\<rparr>))"
  by (simp add: send_def emit_def Let_def split: sendResult.splits)

lemma sendHelloWorksUsTaxForm_contact:
  assumes "getAdminsForAccount d account w = (adminUsers, w1)"
    and "getMainAdminToContact account adminUsers w1 = Some mainUser"
  shows "sendHelloWorksUsTaxForm d client account y cbUrl wfId w =
     (case tryBlock d client account y cbUrl wfId adminUsers mainUser
             (participantsFor account mainUser) w1 of
        (Returns r, w2) \<Rightarrow> (r, w2)
      | (Throws err, w2) \<Rightarrow> catchBlock account y mainUser err w2)"
  using assms by (simp add: sendHelloWorksUsTaxForm_def Let_def)

lemma getAdminsForAccount_frame:
  assumes "getAdminsForAccount d account w = (adminUsers, w1)"
  shows "\<exists>logs. w1 = w\<lparr>trace := trace w @ logs\<rparr>"
  using getAdminsForAccount_world [of d account w] assms by auto

lemma tryBlock_steps:
  assumes "createInstance client (instanceParams account y cbUrl wfId adminUsers mainUser ps)
             = Inr instance"
    and "steps instance = step0 # rest"
  shows "\<exists>doc doc2 tbl2.
     requestStatus doc = REQUESTED
     \<and> data doc = JObj [(''helloWorks'', JObj [(''instance'', instance_json instance)])]
     \<and> doc2 = doc\<lparr>data := JObj [(''helloWorks'',
                      JObj [(''instance'', instance_json instance),
                            (''documentLink'',
                             JStr (case getAuthenticatedLinkForStep client (instance_id instance)
                                          (step step0) of
                                     Inr authenticated \<Rightarrow> authenticated | Inl _ \<Rightarrow> url step0))])]\<rparr>
     \<and> find (matches US_TAX_FORM y (collective_id account)) tbl2 = Some doc2
     \<and> tryBlock d client account y cbUrl wfId adminUsers mainUser ps w =
         send d ''tax-form-request'' (email mainUser)
           (emailDataFor account mainUser
              (case getAuthenticatedLinkForStep client (instance_id instance) (step step0) of
                 Inr authenticated \<Rightarrow> authenticated | Inl _ \<Rightarrow> url step0))
           (w\<lparr>LegalDocuments := tbl2,
              trace := trace w @
                [Client_createInstance (instanceParams account y cbUrl wfId adminUsers mainUser ps),
                 LegalDocument_written doc,
                 Client_getAuthenticatedLinkForStep (instance_id instance) (step step0)] @
                (case getAuthenticatedLinkForStep client (instance_id instance) (step step0) of
                   Inr _ \<Rightarrow> []
                 | Inl e \<Rightarrow>
                     [Log warn (js (''Tax form: error getting authenticated link for '' @
                                instance_id instance @ '': '' @ message e))]) @
                [LegalDocument_written doc2]\<rparr>)"
proof -
  let ?P = "matches US_TAX_FORM y (collective_id account)"
  define link where "link =
    (case getAuthenticatedLinkForStep client (instance_id instance) (step step0) of
       Inr authenticated \<Rightarrow> authenticated | Inl _ \<Rightarrow> url step0)"
  from tryBlock_created [OF assms(1), of d w] obtain doc tbl where
    props: "requestStatus doc = REQUESTED"
      "data doc = JObj [(''helloWorks'', JObj [(''instance'', instance_json instance)])]"
      "?P doc" "find ?P tbl = Some doc"
    and t: "tryBlock d client account y cbUrl wfId adminUsers mainUser ps w =
         send d ''tax-form-request'' (email mainUser) (emailDataFor account mainUser link)
               (snd (LegalDocument_update
                  (doc\<lparr>data := JObj [(''helloWorks'',
                      JObj [(''instance'', instance_json instance),
                            (''documentLink'', JStr link)])]\<rparr>)
                  (w\<lparr>LegalDocuments := tbl,
                     trace := trace w @
                       [Client_createInstance
                          (instanceParams account y cbUrl wfId adminUsers mainUser ps),
                        LegalDocument_written doc,
                        Client_getAuthenticatedLinkForStep (instance_id instance) (step step0)] @
                       (case getAuthenticatedLinkForStep client (instance_id instance)
                               (step step0) of
                          Inr _ \<Rightarrow> []
                        | Inl e \<Rightarrow>
                            [Log warn (js (''Tax form: error getting authenticated link for '' @
                                       instance_id instance @ '': '' @ message e))])\<rparr>)))"
    unfolding link_def using assms(2) by auto
  define doc2 where "doc2 = doc\<lparr>data := JObj [(''helloWorks'',
                      JObj [(''instance'', instance_json instance),
                            (''documentLink'', JStr link)])]\<rparr>"
  define tbl2 where "tbl2 = map (\<lambda>row. if doc_id row = doc_id doc2 then doc2 else row) tbl"
  have "?P doc2" using props(3) by (simp add: doc2_def matches_def)
  then have f: "find ?P tbl2 = Some doc2"
    unfolding tbl2_def using props(4) by (intro find_overwrite) (simp_all add: doc2_def)
  have "tryBlock d client account y cbUrl wfId adminUsers mainUser ps w =
         send d ''tax-form-request'' (email mainUser) (emailDataFor account mainUser link)
           (w\<lparr>LegalDocuments := tbl2,
              trace := trace w @
                [Client_createInstance (instanceParams account y cbUrl wfId adminUsers mainUser ps),
                 LegalDocument_written doc,
                 Client_getAuthenticatedLinkForStep (instance_id instance) (step step0)] @
                (case getAuthenticatedLinkForStep client (instance_id instance) (step step0) of
                   Inr _ \<Rightarrow> []
                 | Inl e \<Rightarrow>
                     [Log warn (js (''Tax form: error getting authenticated link for '' @
                                instance_id instance @ '': '' @ message e))]) @
                [LegalDocument_written doc2]\<rparr>)"
    unfolding t doc2_def [symmetric] by (simp add: LegalDocument_update_eq tbl2_def)
  with props(1,2) f show ?thesis
    unfolding link_def [symmetric]
    by (intro exI [of _ doc] exI [of _ doc2] exI [of _ tbl2]) (simp add: doc2_def)
qed

lemma sendHelloWorksUsTaxForm_steps:
  assumes adm: "getAdminsForAccount d account w = (adminUsers, w')"
    and contact: "getMainAdminToContact account adminUsers w' = Some mainUser"
    and created: "createInstance client
                    (instanceParams account y cbUrl wfId adminUsers mainUser
                       (participantsFor account mainUser)) = Inr instance"
    and steps: "steps instance = step0 # rest"
    and link: "link = (case getAuthenticatedLinkForStep client (instance_id instance) (step step0) of
                         Inr authenticated \<Rightarrow> authenticated | Inl _ \<Rightarrow> url step0)"
  shows "\<exists>doc doc2 tbl2 mid.
      requestStatus doc = REQUESTED
      \<and> data doc = JObj [(''helloWorks'', JObj [(''instance'', instance_json instance)])]
      \<and> requestStatus doc2 = REQUESTED
      \<and> data doc2 = JObj [(''helloWorks'',
                           JObj [(''instance'', instance_json instance),
                                 (''documentLink'', JStr link)])]
      \<and> find (matches US_TAX_FORM y (collective_id account)) tbl2 = Some doc2
      \<and> sendHelloWorksUsTaxForm d client account y cbUrl wfId w =
          (case emailLib_send d ''tax-form-request'' (email mainUser)
                  (emailDataFor account mainUser link) of
             Delivered \<Rightarrow>
               (Inr EmailSent,
                w'\<lparr>LegalDocuments := tbl2,
                   trace := trace w' @
                     [Client_createInstance
                        (instanceParams account y cbUrl wfId adminUsers mainUser
                           (participantsFor account mainUser)),
                      LegalDocument_written doc,
                      Client_getAuthenticatedLinkForStep (instance_id instance) (step step0)] @
                     mid @
                     [LegalDocument_written doc2,
                      EmailLib_send ''tax-form-request'' (email mainUser)
                        (emailDataFor account mainUser link)],
                   outbox := outbox w' @
                     [(''tax-form-request'', email mainUser, emailDataFor account mainUser link)]\<rparr>)
           | Rejected r \<Rightarrow>
               (Inl r,
                w'\<lparr>LegalDocuments := tbl2,
                   trace := trace w' @
                     [Client_createInstance
                        (instanceParams account y cbUrl wfId adminUsers mainUser
                           (participantsFor account mainUser)),
                      LegalDocument_written doc,
                      Client_getAuthenticatedLinkForStep (instance_id instance) (step step0)] @
                     mid @
                     [LegalDocument_written doc2,
                      EmailLib_send ''tax-form-request'' (email mainUser)
                        (emailDataFor account mainUser link)]\<rparr>)
           | SyncThrow r \<Rightarrow>
               catchBlock account y mainUser r
                (w'\<lparr>LegalDocuments := tbl2,
                   trace := trace w' @
                     [Client_createInstance
                        (instanceParams account y cbUrl wfId adminUsers mainUser
                           (participantsFor account mainUser)),
                      LegalDocument_written doc,
                      Client_getAuthenticatedLinkForStep (instance_id instance) (step step0)] @
                     mid @
                     [LegalDocument_written doc2,
                      EmailLib_send ''tax-form-request'' (email mainUser)
                        (emailDataFor account mainUser link)]\<rparr>))"
proof -
  let ?R = "sendHelloWorksUsTaxForm d client account y cbUrl wfId w"
  let ?ps = "participantsFor account mainUser"
  let ?params = "instanceParams account y cbUrl wfId adminUsers mainUser ?ps"
  let ?ed = "emailDataFor account mainUser link"
  define mid where "mid =
    (case getAuthenticatedLinkForStep client (instance_id instance) (step step0) of
                   Inr _ \<Rightarrow> []
                 | Inl e \<Rightarrow>
                     [Log warn (js (''Tax form: error getting authenticated link for '' @
                                instance_id instance @ '': '' @ message e))])"
  from tryBlock_steps [OF created steps, of d w', folded link mid_def]
  obtain doc doc2 tbl2 where
    raw: "requestStatus doc = REQUESTED"
      "data doc = JObj [(''helloWorks'', JObj [(''instance'', instance_json instance)])]"
      "doc2 = doc\<lparr>data := JObj [(''helloWorks'',
                      JObj [(''instance'', instance_json instance),
                            (''documentLink'', JStr link)])]\<rparr>"
      "find (matches US_TAX_FORM y (collective_id account)) tbl2 = Some doc2"
      "tryBlock d client account y cbUrl wfId adminUsers mainUser ?ps w' =
         send d ''tax-form-request'' (email mainUser) ?ed
           (w'\<lparr>LegalDocuments := tbl2,
              trace := trace w' @
                [Client_createInstance ?params,
                 LegalDocument_written doc,
                 Client_getAuthenticatedLinkForStep (instance_id instance) (step step0)] @
                mid @ [LegalDocument_written doc2]\<rparr>)"
    by blast
  have d2: "requestStatus doc2 = REQUESTED"
      "data doc2 = JObj [(''helloWorks'',
                           JObj [(''instance'', instance_json instance),
                                 (''documentLink'', JStr link)])]"
    using raw(1,3) by simp_all
  note R = sendHelloWorksUsTaxForm_contact [OF adm contact, of client y cbUrl wfId]
  have "?R =
          (case emailLib_send d ''tax-form-request'' (email mainUser) ?ed of
             Delivered \<Rightarrow>
               (Inr EmailSent,
                w'\<lparr>LegalDocuments := tbl2,
                   trace := trace w' @
                     [Client_createInstance ?params,
                      LegalDocument_written doc,
                      Client_getAuthenticatedLinkForStep (instance_id instance) (step step0)] @
                     mid @
                     [LegalDocument_written doc2,
                      EmailLib_send ''tax-form-request'' (email mainUser) ?ed],
                   outbox := outbox w' @ [(''tax-form-request'', email mainUser, ?ed)]\<rparr>)
           | Rejected r \<Rightarrow>
               (Inl r,
                w'\<lparr>LegalDocuments := tbl2,
                   trace := trace w' @
                     [Client_createInstance ?params,
                      LegalDocument_written doc,
                      Client_getAuthenticatedLinkForStep (instance_id instance) (step step0)] @
                     mid @
                     [LegalDocument_written doc2,
                      EmailLib_send ''tax-form-request'' (email mainUser) ?ed]\<rparr>)
           | SyncThrow r \<Rightarrow>
               catchBlock account y mainUser r
                (w'\<lparr>LegalDocuments := tbl2,
                   trace := trace w' @
                     [Client_createInstance ?params,
                      LegalDocument_written doc,
                      Client_getAuthenticatedLinkForStep (instance_id instance) (step step0)] @
                     mid @
                     [LegalDocument_written doc2,
                      EmailLib_send ''tax-form-request'' (email mainUser) ?ed]\<rparr>))"
    unfolding R raw(5) by (simp add: send_eq split: sendResult.splits)
  with raw(1,2,4) d2 show ?thesis
    by (intro exI [of _ doc] exI [of _ doc2] exI [of _ tbl2] exI [of _ mid]) simp
qed

lemma sendHelloWorksUsTaxForm_thrown_early:
  assumes adm: "getAdminsForAccount d account w = (adminUsers, w')"
    and contact: "getMainAdminToContact account adminUsers w' = Some mainUser"
    and thrown: "createInstance client
                    (instanceParams account y cbUrl wfId adminUsers mainUser
                       (participantsFor account mainUser)) = Inl err
      \<or> (\<exists>instance. createInstance client
                    (instanceParams account y cbUrl wfId adminUsers mainUser
                       (participantsFor account mainUser)) = Inr instance
            \<and> steps instance = [] \<and> err = typeError d ''url'')"
  shows "\<exists>w2. sendHelloWorksUsTaxForm d client account y cbUrl wfId w =
                 catchBlock account y mainUser err w2
              \<and> outbox w2 = outbox w'
              \<and> (\<forall>t r ed. EmailLib_send t r ed \<in> set (trace w2) \<longrightarrow>
                    EmailLib_send t r ed \<in> set (trace w'))"
proof -
  let ?ps = "participantsFor account mainUser"
  let ?params = "instanceParams account y cbUrl wfId adminUsers mainUser ?ps"
  note R = sendHelloWorksUsTaxForm_contact [OF adm contact, of client y cbUrl wfId]
  from thrown show ?thesis
  proof
    assume "createInstance client ?params = Inl err"
    from tryBlock_create_fails [OF this, of d w'] show ?thesis
      unfolding R by (intro exI [of _ "w'\<lparr>trace := trace w' @ [Client_createInstance ?params]\<rparr>"]) simp
  next
    assume "\<exists>instance. createInstance client ?params = Inr instance
            \<and> steps instance = [] \<and> err = typeError d ''url''"
    then obtain created where c: "createInstance client ?params = Inr created"
      and s: "steps created = []" and e: "err = typeError d ''url''" by blast
    from tryBlock_created [OF c, of d w'] s obtain doc tbl where
      "tryBlock d client account y cbUrl wfId adminUsers mainUser ?ps w' =
         (Throws (typeError d ''url''),
              w'\<lparr>LegalDocuments := tbl,
                trace := trace w' @ [Client_createInstance ?params, LegalDocument_written doc]\<rparr>)"
      by auto
    then show ?thesis
      unfolding R e
      by (intro exI [of _ "w'\<lparr>LegalDocuments := tbl,
                trace := trace w' @ [Client_createInstance ?params, LegalDocument_written doc]\<rparr>"]) simp
  qed
qed

subsection \<open>Saving replaces, the link update merges\<close>

text \<open>
  C1, as amended. \<open>saveDocumentStatus\<close> finds or creates the record of the account, the
  year and \<open>US_TAX_FORM\<close> (a row is added only when none matches) and sets its status and
  its data to the values given: the data given replace the data stored before. The merge is
  done by the link update of \<open>sendHelloWorksUsTaxForm\<close>: when a contact was found and the
  instance was created with a first step, the flow first writes the document with the
  instance as its data and later writes it again with data that hold both
  \<open>helloWorks.instance\<close> and \<open>helloWorks.documentLink\<close>.
\<close>

theorem saveDocumentStatus_replaces:
  "storedDocument account y (snd (saveDocumentStatus account y st p w)) =
     Some (fst (saveDocumentStatus account y st p w))
   \<and> requestStatus (fst (saveDocumentStatus account y st p w)) = st
   \<and> data (fst (saveDocumentStatus account y st p w)) = p
   \<and> length (LegalDocuments (snd (saveDocumentStatus account y st p w))) =
       (if \<exists>row \<in> set (LegalDocuments w). matches US_TAX_FORM y (collective_id account) row
        then length (LegalDocuments w) else Suc (length (LegalDocuments w)))
   \<and> (getAdminsForAccount d account w = (adminUsers, w')
        \<and> getMainAdminToContact account adminUsers w' = Some mainUser
        \<and> createInstance client
              (instanceParams account y cbUrl wfId adminUsers mainUser
                 (participantsFor account mainUser)) = Inr inst
        \<and> steps inst = firstStep # rest \<longrightarrow>
        (\<exists>doc doc2 before between after.
           trace (snd (sendHelloWorksUsTaxForm d client account y cbUrl wfId w)) =
             before @ LegalDocument_written doc # between @ LegalDocument_written doc2 # after
           \<and> data doc = JObj [(''helloWorks'', JObj [(''instance'', instance_json inst)])]
           \<and> data doc2 =
               JObj [(''helloWorks'',
                      JObj [(''instance'', instance_json inst),
                            (''documentLink'',
                             JStr (case getAuthenticatedLinkForStep client (instance_id inst)
                                        (step firstStep) of
                                   Inr authenticated \<Rightarrow> authenticated
                                 | Inl _ \<Rightarrow> url firstStep))])]))"
proof -
  obtain doc tbl where
    "saveDocumentStatus account y st p w =
       (doc, w\<lparr>LegalDocuments := tbl, trace := trace w @ [LegalDocument_written doc]\<rparr>)"
    "requestStatus doc = st" "data doc = p"
    "find (matches US_TAX_FORM y (collective_id account)) tbl = Some doc"
    "length tbl =
         (if \<exists>row \<in> set (LegalDocuments w). matches US_TAX_FORM y (collective_id account) row
          then length (LegalDocuments w) else Suc (length (LegalDocuments w)))"
    using saveDocumentStatus_props [of account y st p w] by blast
  then have first: "storedDocument account y (snd (saveDocumentStatus account y st p w)) =
     Some (fst (saveDocumentStatus account y st p w))
   \<and> requestStatus (fst (saveDocumentStatus account y st p w)) = st
   \<and> data (fst (saveDocumentStatus account y st p w)) = p
   \<and> length (LegalDocuments (snd (saveDocumentStatus account y st p w))) =
       (if \<exists>row \<in> set (LegalDocuments w). matches US_TAX_FORM y (collective_id account) row
        then length (LegalDocuments w) else Suc (length (LegalDocuments w)))"
    by (simp add: storedDocument_def)
  have second: "\<exists>doc doc2 before between after.
           trace (snd (sendHelloWorksUsTaxForm d client account y cbUrl wfId w)) =
             before @ LegalDocument_written doc # between @ LegalDocument_written doc2 # after
           \<and> data doc = JObj [(''helloWorks'', JObj [(''instance'', instance_json inst)])]
           \<and> data doc2 =
               JObj [(''helloWorks'',
                      JObj [(''instance'', instance_json inst),
                            (''documentLink'',
                             JStr (case getAuthenticatedLinkForStep client (instance_id inst)
                                        (step firstStep) of
                                   Inr authenticated \<Rightarrow> authenticated
                                 | Inl _ \<Rightarrow> url firstStep))])]"
    if adm: "getAdminsForAccount d account w = (adminUsers, w')"
      and contact: "getMainAdminToContact account adminUsers w' = Some mainUser"
      and created: "createInstance client
              (instanceParams account y cbUrl wfId adminUsers mainUser
                 (participantsFor account mainUser)) = Inr inst"
      and steps: "steps inst = firstStep # rest"
  proof -
    let ?R = "sendHelloWorksUsTaxForm d client account y cbUrl wfId w"
    let ?params = "instanceParams account y cbUrl wfId adminUsers mainUser
                     (participantsFor account mainUser)"
    let ?msg = "js (''Failed to initialize tax form for account #'' @
                  showNat (collective_id account) @ '' ('' @ email mainUser @ '')'')"
    define link where "link =
      (case getAuthenticatedLinkForStep client (instance_id inst) (step firstStep) of
         Inr authenticated \<Rightarrow> authenticated | Inl _ \<Rightarrow> url firstStep)"
    let ?ed = "emailDataFor account mainUser link"
    let ?fetch = "Client_getAuthenticatedLinkForStep (instance_id inst) (step firstStep)"
    let ?mail = "EmailLib_send ''tax-form-request'' (email mainUser) ?ed"
    from sendHelloWorksUsTaxForm_steps [OF adm contact created steps link_def]
    obtain doc doc2 tbl2 mid where
      props: "data doc = JObj [(''helloWorks'', JObj [(''instance'', instance_json inst)])]"
        "data doc2 = JObj [(''helloWorks'',
                             JObj [(''instance'', instance_json inst),
                                   (''documentLink'', JStr link)])]"
      and R: "?R =
            (case emailLib_send d ''tax-form-request'' (email mainUser) ?ed of
               Delivered \<Rightarrow>
                 (Inr EmailSent,
                  w'\<lparr>LegalDocuments := tbl2,
                     trace := trace w' @
                       [Client_createInstance ?params, LegalDocument_written doc, ?fetch] @
                       mid @ [LegalDocument_written doc2, ?mail],
                     outbox := outbox w' @ [(''tax-form-request'', email mainUser, ?ed)]\<rparr>)
             | Rejected r \<Rightarrow>
                 (Inl r,
                  w'\<lparr>LegalDocuments := tbl2,
                     trace := trace w' @
                       [Client_createInstance ?params, LegalDocument_written doc, ?fetch] @
                       mid @ [LegalDocument_written doc2, ?mail]\<rparr>)
             | SyncThrow r \<Rightarrow>
                 catchBlock account y mainUser r
                  (w'\<lparr>LegalDocuments := tbl2,
                     trace := trace w' @
                       [Client_createInstance ?params, LegalDocument_written doc, ?fetch] @
                       mid @ [LegalDocument_written doc2, ?mail]\<rparr>))"
      by blast
    have "\<exists>after. trace (snd ?R) =
            (trace w' @ [Client_createInstance ?params]) @ LegalDocument_written doc #
            (?fetch # mid) @ LegalDocument_written doc2 # after"
    proof (cases "emailLib_send d ''tax-form-request'' (email mainUser) ?ed")
      case Delivered
      with R show ?thesis by (intro exI [of _ "[?mail]"]) simp
    next
      case (Rejected r)
      with R show ?thesis by (intro exI [of _ "[?mail]"]) simp
    next
      case (SyncThrow r)
      let ?w5 = "w'\<lparr>LegalDocuments := tbl2,
                     trace := trace w' @
                       [Client_createInstance ?params, LegalDocument_written doc, ?fetch] @
                       mid @ [LegalDocument_written doc2, ?mail]\<rparr>"
      from catchBlock_props [of account y mainUser r ?w5] obtain doc3 tbl3 where
        "catchBlock account y mainUser r ?w5 =
           (Inr (Document doc3),
            ?w5\<lparr>LegalDocuments := tbl3,
               trace := trace ?w5 @ [Log error ?msg, LegalDocument_written doc3]\<rparr>)"
        by blast
      with R SyncThrow show ?thesis
        by (intro exI [of _ "[?mail, Log error ?msg, LegalDocument_written doc3]"]) simp
    qed
    with props show ?thesis unfolding link_def by blast
  qed
  from first second show ?thesis by blast
qed

theorem saveDocumentStatus_replaces_witness:
  "data (fst (saveDocumentStatus
          \<lparr>collective_id = 7, name = Some (js ''Acme''), legalName = Some (js ''Acme LLC''),
          slug = js ''acme'', collective_type = ''ORGANIZATION''\<rparr>
          2024 REQUESTED (JObj [(''helloWorks'', JObj [(''instance'', JObj [(''id'', JNum 1)])])])
          \<lparr>Collectives = [],
        LegalDocuments =
          [\<lparr>doc_id = 1, documentType = US_TAX_FORM, year = 2024, CollectiveId = 7,
            requestStatus = ERROR,
            data = JObj [(''error'', JObj [(''message'', JStr ''boom'')])]\<rparr>],
        Expenses = [], outbox = [], trace = []\<rparr>))
   = (JObj [(''helloWorks'', JObj [(''instance'', JObj [(''id'', JNum 1)])])])
   \<and> length (LegalDocuments (snd (saveDocumentStatus
          \<lparr>collective_id = 7, name = Some (js ''Acme''), legalName = Some (js ''Acme LLC''),
          slug = js ''acme'', collective_type = ''ORGANIZATION''\<rparr>
          2024 REQUESTED (JObj [(''helloWorks'', JObj [(''instance'', JObj [(''id'', JNum 1)])])])
          \<lparr>Collectives = [],
        LegalDocuments =
          [\<lparr>doc_id = 1, documentType = US_TAX_FORM, year = 2024, CollectiveId = 7,
            requestStatus = ERROR,
            data = JObj [(''error'', JObj [(''message'', JStr ''boom'')])]\<rparr>],
        Expenses = [], outbox = [], trace = []\<rparr>))) = 1
   \<and> LegalDocuments (snd (sendHelloWorksUsTaxForm
           \<lparr>config_env = ''production'', isEmailInternal = (\<lambda>_. False),
               getAdminUsers = (\<lambda>_. [\<lparr>user_id = 3, email = ''a@x.com'',
                         collective = \<lparr>collective_id = 30, name = Some (js ''Ann''), legalName = None,
                                       slug = js ''ann'', collective_type = ''USER''\<rparr>\<rparr>]),
               shouldBeRequested = (\<lambda>doc. requestStatus doc = ERROR),
               getTaxFormsRequiredForAccounts = (\<lambda>_. {7}),
               emailLib_send = (\<lambda>_ _ _. Delivered),
               typeError = (\<lambda>p. \<lparr>message = ''Cannot read property '' @ p, stack = []\<rparr>)\<rparr>
           \<lparr>createInstance = (\<lambda>_. Inr \<lparr>instance_id = ''i1'', steps = [\<lparr>step = ''s1'', url = ''https://plain''\<rparr>]\<rparr>),
               getAuthenticatedLinkForStep = (\<lambda>_ _. Inr ''https://signed'')\<rparr>
           \<lparr>collective_id = 7, name = Some (js ''Acme''), legalName = Some (js ''Acme LLC''),
               slug = js ''acme'', collective_type = ''ORGANIZATION''\<rparr>
           2024 ''https://cb'' ''wf''
           \<lparr>Collectives = [],
             LegalDocuments =
               [\<lparr>doc_id = 1, documentType = US_TAX_FORM, year = 2024, CollectiveId = 7,
                 requestStatus = ERROR,
                 data = JObj [(''error'', JObj [(''message'', JStr ''boom'')])]\<rparr>],
             Expenses = [], outbox = [], trace = []\<rparr>))
     = [\<lparr>doc_id = 1, documentType = ''US_TAX_FORM'', year = 2024, CollectiveId = 7,
          requestStatus = REQUESTED,
          data = JObj [(''helloWorks'',
                        JObj [(''instance'', JObj [(''id'', JStr ''i1''),
                     (''steps'', JArr [JObj [(''step'', JStr ''s1''), (''url'', JStr ''https://plain'')]])]),
                              (''documentLink'', JStr ''https://signed'')])]\<rparr>]"
  using saveDocumentStatus_replaces
    [where account = "\<lparr>collective_id = 7, name = Some (js ''Acme''), legalName = Some (js ''Acme LLC''),
          slug = js ''acme'', collective_type = ''ORGANIZATION''\<rparr>"
       and y = 2024 and st = REQUESTED
       and p = "(JObj [(''helloWorks'', JObj [(''instance'', JObj [(''id'', JNum 1)])])])"
       and w = "\<lparr>Collectives = [],
        LegalDocuments =
          [\<lparr>doc_id = 1, documentType = US_TAX_FORM, year = 2024, CollectiveId = 7,
            requestStatus = ERROR,
            data = JObj [(''error'', JObj [(''message'', JStr ''boom'')])]\<rparr>],
        Expenses = [], outbox = [], trace = []\<rparr>"
       and d = "\<lparr>config_env = ''production'', isEmailInternal = (\<lambda>_. False),
       getAdminUsers = (\<lambda>_. [\<lparr>user_id = 3, email = ''a@x.com'',
                 collective = \<lparr>collective_id = 30, name = Some (js ''Ann''), legalName = None,
                               slug = js ''ann'', collective_type = ''USER''\<rparr>\<rparr>]),
       shouldBeRequested = (\<lambda>doc. requestStatus doc = ERROR),
       getTaxFormsRequiredForAccounts = (\<lambda>_. {7}),
       emailLib_send = (\<lambda>_ _ _. Delivered),
       typeError = (\<lambda>p. \<lparr>message = ''Cannot read property '' @ p, stack = []\<rparr>)\<rparr>"
       and client = "\<lparr>createInstance = (\<lambda>_. Inr \<lparr>instance_id = ''i1'', steps = [\<lparr>step = ''s1'', url = ''https://plain''\<rparr>]\<rparr>),
       getAuthenticatedLinkForStep = (\<lambda>_ _. Inr ''https://signed'')\<rparr>"
       and cbUrl = "''https://cb''" and wfId = "''wf''"
       and w' = "\<lparr>Collectives = [],
        LegalDocuments =
          [\<lparr>doc_id = 1, documentType = US_TAX_FORM, year = 2024, CollectiveId = 7,
            requestStatus = ERROR,
            data = JObj [(''error'', JObj [(''message'', JStr ''boom'')])]\<rparr>],
        Expenses = [], outbox = [], trace = []\<rparr>"
       and adminUsers = "[\<lparr>user_id = 3, email = ''a@x.com'',
       collective = \<lparr>collective_id = 30, name = Some (js ''Ann''), legalName = None,
                     slug = js ''ann'', collective_type = ''USER''\<rparr>\<rparr>]"
       and mainUser = "\<lparr>user_id = 3, email = ''a@x.com'',
       collective = \<lparr>collective_id = 30, name = Some (js ''Ann''), legalName = None,
                     slug = js ''ann'', collective_type = ''USER''\<rparr>\<rparr>"
       and inst = "\<lparr>instance_id = ''i1'', steps = [\<lparr>step = ''s1'', url = ''https://plain''\<rparr>]\<rparr>"
       and firstStep = "\<lparr>step = ''s1'', url = ''https://plain''\<rparr>"
       and rest = "[]"]
  by (simp add: sendHelloWorksUsTaxForm_def getAdminsForAccount_def getMainAdminToContact_def tryBlock_def catchBlock_def saveDocumentStatus_def LegalDocument_findOrCreate_def LegalDocument_update_def send_def emit_def logger_def matches_def freshId_def instanceParams_def participantsFor_def emailDataFor_def toString_def truthy_def jsOr_def instance_json_def js_def assign_def arrayIndex_def digit_def propertyIsUnsafe_def propertyIsOnObject_def ownProperty_def objectPrototypeKeys_def storedDocument_def US_TAX_FORM_def showNat.simps Let_def)

text \<open>
  C1 as it is stated does not hold: saving the document link through
  \<open>saveDocumentStatus\<close> after the instance was saved leaves one record whose data hold
  the link only; the instance is gone.
\<close>

theorem saveDocumentStatus_merge_counterexample:
  "LegalDocuments (snd (saveDocumentStatus
      \<lparr>collective_id = 7, name = Some (js ''Acme''), legalName = Some (js ''Acme LLC''),
          slug = js ''acme'', collective_type = ''ORGANIZATION''\<rparr>
      2024 REQUESTED (JObj [(''helloWorks'', JObj [(''documentLink'', JStr ''X'')])])
      (snd (saveDocumentStatus
         \<lparr>collective_id = 7, name = Some (js ''Acme''), legalName = Some (js ''Acme LLC''),
          slug = js ''acme'', collective_type = ''ORGANIZATION''\<rparr>
         2024 REQUESTED (JObj [(''helloWorks'', JObj [(''instance'', JObj [(''id'', JNum 1)])])])
         \<lparr>Collectives = [], LegalDocuments = [], Expenses = [], outbox = [], trace = []\<rparr>))))
   = [\<lparr>doc_id = 1, documentType = ''US_TAX_FORM'', year = 2024, CollectiveId = 7,
       requestStatus = REQUESTED,
       data = JObj [(''helloWorks'', JObj [(''documentLink'', JStr ''X'')])]\<rparr>]"
  by (simp add: saveDocumentStatus_def LegalDocument_findOrCreate_def LegalDocument_update_def
        emit_def matches_def freshId_def US_TAX_FORM_def Let_def)

subsection \<open>The request is recorded before the link is fetched\<close>

text \<open>
  C5, as amended. When a contact was found and the workflow instance is created, the first
  thing that happens after the request to HelloWorks is the write of the legal document
  with status \<open>REQUESTED\<close> and the instance as its data; the request for the
  authenticated link comes only after that write. When the link cannot be fetched, or the
  promise of the mailer is rejected, the stored document is still \<open>REQUESTED\<close> and still
  holds the instance.
\<close>

theorem sendHelloWorksUsTaxForm_requested_first:
  assumes adm: "getAdminsForAccount d account w = (adminUsers, w')"
    and contact: "getMainAdminToContact account adminUsers w' = Some mainUser"
    and created: "createInstance client
                    (instanceParams account y cbUrl wfId adminUsers mainUser
                       (participantsFor account mainUser)) = Inr inst"
  shows "\<exists>doc post.
      requestStatus doc = REQUESTED
      \<and> data doc = JObj [(''helloWorks'', JObj [(''instance'', instance_json inst)])]
      \<and> trace (snd (sendHelloWorksUsTaxForm d client account y cbUrl wfId w)) =
          trace w' @
          [Client_createInstance
             (instanceParams account y cbUrl wfId adminUsers mainUser
                (participantsFor account mainUser)),
           LegalDocument_written doc] @ post
      \<and> (\<forall>firstStep rest. steps inst = firstStep # rest \<longrightarrow>
            (\<exists>post'. post = Client_getAuthenticatedLinkForStep (instance_id inst)
                               (step firstStep) # post')
            \<and> ((\<forall>e. emailLib_send d ''tax-form-request'' (email mainUser)
                        (emailDataFor account mainUser
                           (case getAuthenticatedLinkForStep client (instance_id inst)
                                   (step firstStep) of
                              Inr authenticated \<Rightarrow> authenticated | Inl _ \<Rightarrow> url firstStep))
                      \<noteq> SyncThrow e) \<longrightarrow>
                 (\<exists>doc2.
                    storedDocument account y
                      (snd (sendHelloWorksUsTaxForm d client account y cbUrl wfId w)) = Some doc2
                    \<and> requestStatus doc2 = REQUESTED
                    \<and> data doc2 =
                        JObj [(''helloWorks'',
                               JObj [(''instance'', instance_json inst),
                                     (''documentLink'',
                                      JStr (case getAuthenticatedLinkForStep client
                                                   (instance_id inst) (step firstStep) of
                                              Inr authenticated \<Rightarrow> authenticated
                                            | Inl _ \<Rightarrow> url firstStep))])])))"
proof (cases "steps inst")
  case Nil
  let ?R = "sendHelloWorksUsTaxForm d client account y cbUrl wfId w"
  let ?params = "instanceParams account y cbUrl wfId adminUsers mainUser
                   (participantsFor account mainUser)"
  let ?msg = "js (''Failed to initialize tax form for account #'' @
                showNat (collective_id account) @ '' ('' @ email mainUser @ '')'')"
  from tryBlock_created [OF created, of d w'] Nil obtain doc tbl where
    props: "requestStatus doc = REQUESTED"
      "data doc = JObj [(''helloWorks'', JObj [(''instance'', instance_json inst)])]"
    and t: "tryBlock d client account y cbUrl wfId adminUsers mainUser
              (participantsFor account mainUser) w' =
         (Throws (typeError d ''url''),
              w'\<lparr>LegalDocuments := tbl,
                trace := trace w' @ [Client_createInstance ?params, LegalDocument_written doc]\<rparr>)"
    by auto
  let ?w2 = "w'\<lparr>LegalDocuments := tbl,
                trace := trace w' @ [Client_createInstance ?params, LegalDocument_written doc]\<rparr>"
  from catchBlock_props [of account y mainUser "typeError d ''url''" ?w2] obtain doc3 tbl3 where
    c: "catchBlock account y mainUser (typeError d ''url'') ?w2 =
       (Inr (Document doc3),
        ?w2\<lparr>LegalDocuments := tbl3,
           trace := trace ?w2 @ [Log error ?msg, LegalDocument_written doc3]\<rparr>)"
    by blast
  have "trace (snd ?R) = trace w' @ [Client_createInstance ?params, LegalDocument_written doc] @
          [Log error ?msg, LegalDocument_written doc3]"
    unfolding sendHelloWorksUsTaxForm_contact [OF adm contact] t using c by simp
  with props Nil show ?thesis
    by (intro exI [of _ doc] exI [of _ "[Log error ?msg, LegalDocument_written doc3]"]) simp
next
  case (Cons s0 ss)
  let ?R = "sendHelloWorksUsTaxForm d client account y cbUrl wfId w"
  let ?params = "instanceParams account y cbUrl wfId adminUsers mainUser
                   (participantsFor account mainUser)"
  let ?msg = "js (''Failed to initialize tax form for account #'' @
                showNat (collective_id account) @ '' ('' @ email mainUser @ '')'')"
  define link where "link =
    (case getAuthenticatedLinkForStep client (instance_id inst) (step s0) of
       Inr authenticated \<Rightarrow> authenticated | Inl _ \<Rightarrow> url s0)"
  let ?ed = "emailDataFor account mainUser link"
  let ?fetch = "Client_getAuthenticatedLinkForStep (instance_id inst) (step s0)"
  let ?mail = "EmailLib_send ''tax-form-request'' (email mainUser) ?ed"
  from sendHelloWorksUsTaxForm_steps [OF adm contact created Cons link_def]
  obtain doc doc2 tbl2 mid where
    props: "requestStatus doc = REQUESTED"
      "data doc = JObj [(''helloWorks'', JObj [(''instance'', instance_json inst)])]"
    and d2: "requestStatus doc2 = REQUESTED"
      "data doc2 = JObj [(''helloWorks'',
                           JObj [(''instance'', instance_json inst),
                                 (''documentLink'', JStr link)])]"
    and f: "find (matches US_TAX_FORM y (collective_id account)) tbl2 = Some doc2"
    and R: "?R =
          (case emailLib_send d ''tax-form-request'' (email mainUser) ?ed of
             Delivered \<Rightarrow>
               (Inr EmailSent,
                w'\<lparr>LegalDocuments := tbl2,
                   trace := trace w' @
                     [Client_createInstance ?params, LegalDocument_written doc, ?fetch] @
                     mid @ [LegalDocument_written doc2, ?mail],
                   outbox := outbox w' @ [(''tax-form-request'', email mainUser, ?ed)]\<rparr>)
           | Rejected r \<Rightarrow>
               (Inl r,
                w'\<lparr>LegalDocuments := tbl2,
                   trace := trace w' @
                     [Client_createInstance ?params, LegalDocument_written doc, ?fetch] @
                     mid @ [LegalDocument_written doc2, ?mail]\<rparr>)
           | SyncThrow r \<Rightarrow>
               catchBlock account y mainUser r
                (w'\<lparr>LegalDocuments := tbl2,
                   trace := trace w' @
                     [Client_createInstance ?params, LegalDocument_written doc, ?fetch] @
                     mid @ [LegalDocument_written doc2, ?mail]\<rparr>))"
    by blast
  have "\<exists>post'.
      trace (snd ?R) =
        trace w' @ [Client_createInstance ?params, LegalDocument_written doc] @ (?fetch # post')
      \<and> ((\<forall>e. emailLib_send d ''tax-form-request'' (email mainUser) ?ed \<noteq> SyncThrow e) \<longrightarrow>
           storedDocument account y (snd ?R) = Some doc2)"
  proof (cases "emailLib_send d ''tax-form-request'' (email mainUser) ?ed")
    case Delivered
    with R f show ?thesis
      by (intro exI [of _ "mid @ [LegalDocument_written doc2, ?mail]"])
         (simp add: storedDocument_def)
  next
    case (Rejected r)
    with R f show ?thesis
      by (intro exI [of _ "mid @ [LegalDocument_written doc2, ?mail]"])
         (simp add: storedDocument_def)
  next
    case (SyncThrow r)
    let ?w5 = "w'\<lparr>LegalDocuments := tbl2,
                   trace := trace w' @
                     [Client_createInstance ?params, LegalDocument_written doc, ?fetch] @
                     mid @ [LegalDocument_written doc2, ?mail]\<rparr>"
    from catchBlock_props [of account y mainUser r ?w5] obtain doc3 tbl3 where
      "catchBlock account y mainUser r ?w5 =
         (Inr (Document doc3),
          ?w5\<lparr>LegalDocuments := tbl3,
             trace := trace ?w5 @ [Log error ?msg, LegalDocument_written doc3]\<rparr>)"
      by blast
    with R SyncThrow show ?thesis
      by (intro exI [of _ "mid @ [LegalDocument_written doc2, ?mail,
                                  Log error ?msg, LegalDocument_written doc3]"]) simp
  qed
  then obtain post' where
    tr: "trace (snd ?R) =
        trace w' @ [Client_createInstance ?params, LegalDocument_written doc] @ (?fetch # post')"
    and st: "(\<forall>e. emailLib_send d ''tax-form-request'' (email mainUser) ?ed \<noteq> SyncThrow e) \<longrightarrow>
           storedDocument account y (snd ?R) = Some doc2"
    by blast
  show ?thesis
    using props tr st d2 Cons unfolding link_def
    by (intro exI [of _ doc] exI [of _ "?fetch # post'"]) simp
qed

theorem sendHelloWorksUsTaxForm_requested_first_witness:
  "take 3 (tl (trace (snd (sendHelloWorksUsTaxForm
           \<lparr>config_env = ''production'', isEmailInternal = (\<lambda>_. False),
               getAdminUsers = (\<lambda>_. [\<lparr>user_id = 3, email = ''a@x.com'',
                         collective = \<lparr>collective_id = 30, name = Some (js ''Ann''), legalName = None,
                                       slug = js ''ann'', collective_type = ''USER''\<rparr>\<rparr>]),
               shouldBeRequested = (\<lambda>doc. requestStatus doc = ERROR),
               getTaxFormsRequiredForAccounts = (\<lambda>_. {7}),
               emailLib_send = (\<lambda>_ _ _. Rejected \<lparr>message = ''boom'', stack = ''at f''\<rparr>),
               typeError = (\<lambda>p. \<lparr>message = ''Cannot read property '' @ p, stack = []\<rparr>)\<rparr>
           \<lparr>createInstance = (\<lambda>_. Inr \<lparr>instance_id = ''i1'', steps = [\<lparr>step = ''s1'', url = ''https://plain''\<rparr>]\<rparr>),
               getAuthenticatedLinkForStep = (\<lambda>_ _. Inl \<lparr>message = ''boom'', stack = ''at f''\<rparr>)\<rparr>
           \<lparr>collective_id = 7, name = Some (js ''Acme''), legalName = Some (js ''Acme LLC''),
               slug = js ''acme'', collective_type = ''ORGANIZATION''\<rparr>
           2024 ''https://cb'' ''wf''
           \<lparr>Collectives = [], LegalDocuments = [], Expenses = [], outbox = [], trace = []\<rparr>))))
   = [LegalDocument_written
        \<lparr>doc_id = 1, documentType = ''US_TAX_FORM'', year = 2024, CollectiveId = 7,
              requestStatus = REQUESTED,
              data = JObj [(''helloWorks'', JObj [(''instance'', JObj [(''id'', JStr ''i1''),
                     (''steps'', JArr [JObj [(''step'', JStr ''s1''), (''url'', JStr ''https://plain'')]])])])]\<rparr>,
      Client_getAuthenticatedLinkForStep ''i1'' ''s1'',
      Log warn (js ''Tax form: error getting authenticated link for i1: boom'')]
   \<and> storedDocument
       \<lparr>collective_id = 7, name = Some (js ''Acme''), legalName = Some (js ''Acme LLC''),
          slug = js ''acme'', collective_type = ''ORGANIZATION''\<rparr>
       2024
       (snd (sendHelloWorksUsTaxForm
           \<lparr>config_env = ''production'', isEmailInternal = (\<lambda>_. False),
               getAdminUsers = (\<lambda>_. [\<lparr>user_id = 3, email = ''a@x.com'',
                         collective = \<lparr>collective_id = 30, name = Some (js ''Ann''), legalName = None,
                                       slug = js ''ann'', collective_type = ''USER''\<rparr>\<rparr>]),
               shouldBeRequested = (\<lambda>doc. requestStatus doc = ERROR),
               getTaxFormsRequiredForAccounts = (\<lambda>_. {7}),
               emailLib_send = (\<lambda>_ _ _. Rejected \<lparr>message = ''boom'', stack = ''at f''\<rparr>),
               typeError = (\<lambda>p. \<lparr>message = ''Cannot read property '' @ p, stack = []\<rparr>)\<rparr>
           \<lparr>createInstance = (\<lambda>_. Inr \<lparr>instance_id = ''i1'', steps = [\<lparr>step = ''s1'', url = ''https://plain''\<rparr>]\<rparr>),
               getAuthenticatedLinkForStep = (\<lambda>_ _. Inl \<lparr>message = ''boom'', stack = ''at f''\<rparr>)\<rparr>
           \<lparr>collective_id = 7, name = Some (js ''Acme''), legalName = Some (js ''Acme LLC''),
               slug = js ''acme'', collective_type = ''ORGANIZATION''\<rparr>
           2024 ''https://cb'' ''wf''
           \<lparr>Collectives = [], LegalDocuments = [], Expenses = [], outbox = [], trace = []\<rparr>))
     = Some \<lparr>doc_id = 1, documentType = ''US_TAX_FORM'', year = 2024, CollectiveId = 7,
             requestStatus = REQUESTED,
             data = JObj [(''helloWorks'',
                           JObj [(''instance'', JObj [(''id'', JStr ''i1''),
                     (''steps'', JArr [JObj [(''step'', JStr ''s1''), (''url'', JStr ''https://plain'')]])]),
                                 (''documentLink'', JStr ''https://plain'')])]\<rparr>"
  using sendHelloWorksUsTaxForm_requested_first
    [where d = "\<lparr>config_env = ''production'', isEmailInternal = (\<lambda>_. False),
       getAdminUsers = (\<lambda>_. [\<lparr>user_id = 3, email = ''a@x.com'',
                 collective = \<lparr>collective_id = 30, name = Some (js ''Ann''), legalName = None,
                               slug = js ''ann'', collective_type = ''USER''\<rparr>\<rparr>]),
       shouldBeRequested = (\<lambda>doc. requestStatus doc = ERROR),
       getTaxFormsRequiredForAccounts = (\<lambda>_. {7}),
       emailLib_send = (\<lambda>_ _ _. Rejected \<lparr>message = ''boom'', stack = ''at f''\<rparr>),
       typeError = (\<lambda>p. \<lparr>message = ''Cannot read property '' @ p, stack = []\<rparr>)\<rparr>"
       and client = "\<lparr>createInstance = (\<lambda>_. Inr \<lparr>instance_id = ''i1'', steps = [\<lparr>step = ''s1'', url = ''https://plain''\<rparr>]\<rparr>),
       getAuthenticatedLinkForStep = (\<lambda>_ _. Inl \<lparr>message = ''boom'', stack = ''at f''\<rparr>)\<rparr>"
       and account = "\<lparr>collective_id = 7, name = Some (js ''Acme''), legalName = Some (js ''Acme LLC''),
          slug = js ''acme'', collective_type = ''ORGANIZATION''\<rparr>"
       and y = 2024 and cbUrl = "''https://cb''" and wfId = "''wf''"
       and w = "\<lparr>Collectives = [], LegalDocuments = [], Expenses = [], outbox = [], trace = []\<rparr>"
       and w' = "\<lparr>Collectives = [], LegalDocuments = [], Expenses = [], outbox = [], trace = []\<rparr>"
       and adminUsers = "[\<lparr>user_id = 3, email = ''a@x.com'',
       collective = \<lparr>collective_id = 30, name = Some (js ''Ann''), legalName = None,
                     slug = js ''ann'', collective_type = ''USER''\<rparr>\<rparr>]"
       and mainUser = "\<lparr>user_id = 3, email = ''a@x.com'',
       collective = \<lparr>collective_id = 30, name = Some (js ''Ann''), legalName = None,
                     slug = js ''ann'', collective_type = ''USER''\<rparr>\<rparr>"
       and inst = "\<lparr>instance_id = ''i1'', steps = [\<lparr>step = ''s1'', url = ''https://plain''\<rparr>]\<rparr>"]
  by (simp add: sendHelloWorksUsTaxForm_def getAdminsForAccount_def getMainAdminToContact_def tryBlock_def catchBlock_def saveDocumentStatus_def LegalDocument_findOrCreate_def LegalDocument_update_def send_def emit_def logger_def matches_def freshId_def instanceParams_def participantsFor_def emailDataFor_def toString_def truthy_def jsOr_def instance_json_def js_def assign_def arrayIndex_def digit_def propertyIsUnsafe_def propertyIsOnObject_def ownProperty_def objectPrototypeKeys_def storedDocument_def US_TAX_FORM_def showNat.simps Let_def)

text \<open>
  C5 as it is stated does not hold: an error thrown after the link was fetched and caught
  by the \<^verbatim>\<open>catch\<close> clause (here the call of the mailer throws) leaves the document with
  status \<open>ERROR\<close> and without the instance, since \<open>saveDocumentStatus\<close> replaces the
  data.
\<close>

theorem sendHelloWorksUsTaxForm_requested_first_counterexample:
  "storedDocument
       \<lparr>collective_id = 7, name = Some (js ''Acme''), legalName = Some (js ''Acme LLC''),
          slug = js ''acme'', collective_type = ''ORGANIZATION''\<rparr>
       2024
       (snd (sendHelloWorksUsTaxForm
           \<lparr>config_env = ''production'', isEmailInternal = (\<lambda>_. False),
               getAdminUsers = (\<lambda>_. [\<lparr>user_id = 3, email = ''a@x.com'',
                         collective = \<lparr>collective_id = 30, name = Some (js ''Ann''), legalName = None,
                                       slug = js ''ann'', collective_type = ''USER''\<rparr>\<rparr>]),
               shouldBeRequested = (\<lambda>doc. requestStatus doc = ERROR),
               getTaxFormsRequiredForAccounts = (\<lambda>_. {7}),
               emailLib_send = (\<lambda>_ _ _. SyncThrow \<lparr>message = ''boom'', stack = ''at f''\<rparr>),
               typeError = (\<lambda>p. \<lparr>message = ''Cannot read property '' @ p, stack = []\<rparr>)\<rparr>
           \<lparr>createInstance = (\<lambda>_. Inr \<lparr>instance_id = ''i1'', steps = [\<lparr>step = ''s1'', url = ''https://plain''\<rparr>]\<rparr>),
               getAuthenticatedLinkForStep = (\<lambda>_ _. Inr ''https://signed'')\<rparr>
           \<lparr>collective_id = 7, name = Some (js ''Acme''), legalName = Some (js ''Acme LLC''),
               slug = js ''acme'', collective_type = ''ORGANIZATION''\<rparr>
           2024 ''https://cb'' ''wf''
           \<lparr>Collectives = [], LegalDocuments = [], Expenses = [], outbox = [], trace = []\<rparr>))
   = Some \<lparr>doc_id = 1, documentType = ''US_TAX_FORM'', year = 2024, CollectiveId = 7,
           requestStatus = ERROR,
           data = JObj [(''error'', JObj [(''message'', JStr ''boom''),
                                          (''stack'', JStr ''at f'')])]\<rparr>"
  by (simp add: sendHelloWorksUsTaxForm_def getAdminsForAccount_def getMainAdminToContact_def tryBlock_def catchBlock_def saveDocumentStatus_def LegalDocument_findOrCreate_def LegalDocument_update_def send_def emit_def logger_def matches_def freshId_def instanceParams_def participantsFor_def emailDataFor_def toString_def truthy_def jsOr_def instance_json_def js_def assign_def arrayIndex_def digit_def propertyIsUnsafe_def propertyIsOnObject_def ownProperty_def objectPrototypeKeys_def storedDocument_def US_TAX_FORM_def showNat.simps Let_def)

subsection \<open>Errors thrown inside the try block\<close>

text \<open>
  When a contact was found and an error is thrown inside the \<^verbatim>\<open>try\<close> block (creating
  the workflow instance throws, or the instance has no first step, or the call of the
  mailer itself throws), the \<^verbatim>\<open>catch\<close> clause runs: the legal document is stored with
  status \<open>ERROR\<close> and a data object holding the error's message and stack, that record is
  the returned value, and no email is delivered. When it is the creation of the instance
  that throws, the mailer is not called.
\<close>

lemma sendHelloWorksUsTaxForm_catches:
  assumes adm: "getAdminsForAccount d account w = (adminUsers, w')"
    and contact: "getMainAdminToContact account adminUsers w' = Some mainUser"
    and thrown:
      "createInstance client
         (instanceParams account y cbUrl wfId adminUsers mainUser
            (participantsFor account mainUser)) = Inl err
       \<or> (\<exists>instance.
             createInstance client
               (instanceParams account y cbUrl wfId adminUsers mainUser
                  (participantsFor account mainUser)) = Inr instance
             \<and> steps instance = [] \<and> err = typeError d ''url'')
       \<or> (\<exists>instance step0 rest.
             createInstance client
               (instanceParams account y cbUrl wfId adminUsers mainUser
                  (participantsFor account mainUser)) = Inr instance
             \<and> steps instance = step0 # rest
             \<and> emailLib_send d ''tax-form-request'' (email mainUser)
                  (emailDataFor account mainUser
                     (case getAuthenticatedLinkForStep client (instance_id instance)
                             (step step0) of
                        Inr authenticated \<Rightarrow> authenticated | Inl _ \<Rightarrow> url step0))
                 = SyncThrow err)"
  shows "\<exists>doc.
      fst (sendHelloWorksUsTaxForm d client account y cbUrl wfId w) = Inr (Document doc)
      \<and> requestStatus doc = ERROR
      \<and> data doc = JObj [(''error'', JObj [(''message'', JStr (message err)),
                                            (''stack'', JStr (stack err))])]
      \<and> storedDocument account y (snd (sendHelloWorksUsTaxForm d client account y cbUrl wfId w))
          = Some doc
      \<and> outbox (snd (sendHelloWorksUsTaxForm d client account y cbUrl wfId w)) = outbox w
      \<and> (createInstance client
            (instanceParams account y cbUrl wfId adminUsers mainUser
               (participantsFor account mainUser)) = Inl err \<longrightarrow>
          trace (snd (sendHelloWorksUsTaxForm d client account y cbUrl wfId w)) =
            trace w' @
            [Client_createInstance
               (instanceParams account y cbUrl wfId adminUsers mainUser
                  (participantsFor account mainUser)),
             Log error (js (''Failed to initialize tax form for account #'' @
                        showNat (collective_id account) @ '' ('' @ email mainUser @ '')'')),
             LegalDocument_written doc])"
proof -
  let ?R = "sendHelloWorksUsTaxForm d client account y cbUrl wfId w"
  let ?params = "instanceParams account y cbUrl wfId adminUsers mainUser
                   (participantsFor account mainUser)"
  let ?msg = "js (''Failed to initialize tax form for account #'' @
                showNat (collective_id account) @ '' ('' @ email mainUser @ '')'')"
  obtain logs where w': "w' = w\<lparr>trace := trace w @ logs\<rparr>"
    using getAdminsForAccount_frame [OF adm] by blast
  have "\<exists>w2. ?R = catchBlock account y mainUser err w2 \<and> outbox w2 = outbox w'
          \<and> (createInstance client ?params = Inl err \<longrightarrow>
                trace w2 = trace w' @ [Client_createInstance ?params])"
    using thrown
  proof (elim disjE exE conjE)
    assume c: "createInstance client ?params = Inl err"
    show ?thesis
      unfolding sendHelloWorksUsTaxForm_contact [OF adm contact]
        tryBlock_create_fails [OF c]
      by (intro exI [of _ "w'\<lparr>trace := trace w' @ [Client_createInstance ?params]\<rparr>"]) simp
  next
    fix created
    assume c: "createInstance client ?params = Inr created"
      and s: "steps created = []" and e: "err = typeError d ''url''"
    from sendHelloWorksUsTaxForm_thrown_early [OF adm contact, of client y cbUrl wfId err] c s e
    obtain w2 where "?R = catchBlock account y mainUser err w2" "outbox w2 = outbox w'"
      by blast
    with c show ?thesis by (intro exI [of _ w2]) simp
  next
    fix created step0 rest
    assume c: "createInstance client ?params = Inr created"
      and s: "steps created = step0 # rest"
      and m: "emailLib_send d ''tax-form-request'' (email mainUser)
                  (emailDataFor account mainUser
                     (case getAuthenticatedLinkForStep client (instance_id created)
                             (step step0) of
                        Inr authenticated \<Rightarrow> authenticated | Inl _ \<Rightarrow> url step0))
                 = SyncThrow err"
    from sendHelloWorksUsTaxForm_steps [OF adm contact c s refl] m
    obtain w2 where "?R = catchBlock account y mainUser err w2" "outbox w2 = outbox w'"
      by fastforce
    with c show ?thesis by (intro exI [of _ w2]) simp
  qed
  then obtain w2 where R: "?R = catchBlock account y mainUser err w2"
    and o: "outbox w2 = outbox w'"
    and tr: "createInstance client ?params = Inl err \<longrightarrow>
                trace w2 = trace w' @ [Client_createInstance ?params]"
    by blast
  from catchBlock_props [of account y mainUser err w2] obtain doc tbl where
    c: "catchBlock account y mainUser err w2 =
       (Inr (Document doc),
        w2\<lparr>LegalDocuments := tbl,
           trace := trace w2 @ [Log error ?msg, LegalDocument_written doc]\<rparr>)"
    and props: "requestStatus doc = ERROR"
      "data doc = JObj [(''error'', JObj [(''message'', JStr (message err)),
                                           (''stack'', JStr (stack err))])]"
      "find (matches US_TAX_FORM y (collective_id account)) tbl = Some doc"
    by blast
  show ?thesis
    unfolding R c using props o tr
    by (intro exI [of _ doc]) (simp add: storedDocument_def w')
qed

text \<open>
  C6. The claim that any failure after the contact was found is caught and stored as
  \<open>ERROR\<close> does not hold of the code. The \<^verbatim>\<open>try\<close> block returns the promise of
  \<^verbatim>\<open>emailLib.send\<close> without awaiting it, so when that promise is rejected the
  \<^verbatim>\<open>catch\<close> clause does not run: the function's own promise is rejected with the error,
  nothing is logged or written after the call of the mailer, and the stored document stays
  \<open>REQUESTED\<close>.
\<close>

theorem sendHelloWorksUsTaxForm_rejected_mailer:
  "fst (sendHelloWorksUsTaxForm
           \<lparr>config_env = ''production'', isEmailInternal = (\<lambda>_. False),
               getAdminUsers = (\<lambda>_. [\<lparr>user_id = 3, email = ''a@x.com'',
                         collective = \<lparr>collective_id = 30, name = Some (js ''Ann''), legalName = None,
                                       slug = js ''ann'', collective_type = ''USER''\<rparr>\<rparr>]),
               shouldBeRequested = (\<lambda>doc. requestStatus doc = ERROR),
               getTaxFormsRequiredForAccounts = (\<lambda>_. {7}),
               emailLib_send = (\<lambda>_ _ _. Rejected \<lparr>message = ''boom'', stack = ''at f''\<rparr>),
               typeError = (\<lambda>p. \<lparr>message = ''Cannot read property '' @ p, stack = []\<rparr>)\<rparr>
           \<lparr>createInstance = (\<lambda>_. Inr \<lparr>instance_id = ''i1'', steps = [\<lparr>step = ''s1'', url = ''https://plain''\<rparr>]\<rparr>),
               getAuthenticatedLinkForStep = (\<lambda>_ _. Inr ''https://signed'')\<rparr>
           \<lparr>collective_id = 7, name = Some (js ''Acme''), legalName = Some (js ''Acme LLC''),
               slug = js ''acme'', collective_type = ''ORGANIZATION''\<rparr>
           2024 ''https://cb'' ''wf''
           \<lparr>Collectives = [], LegalDocuments = [], Expenses = [], outbox = [], trace = []\<rparr>)
   = Inl \<lparr>message = ''boom'', stack = ''at f''\<rparr>
   \<and> storedDocument
       \<lparr>collective_id = 7, name = Some (js ''Acme''), legalName = Some (js ''Acme LLC''),
          slug = js ''acme'', collective_type = ''ORGANIZATION''\<rparr>
       2024
       (snd (sendHelloWorksUsTaxForm
           \<lparr>config_env = ''production'', isEmailInternal = (\<lambda>_. False),
               getAdminUsers = (\<lambda>_. [\<lparr>user_id = 3, email = ''a@x.com'',
                         collective = \<lparr>collective_id = 30, name = Some (js ''Ann''), legalName = None,
                                       slug = js ''ann'', collective_type = ''USER''\<rparr>\<rparr>]),
               shouldBeRequested = (\<lambda>doc. requestStatus doc = ERROR),
               getTaxFormsRequiredForAccounts = (\<lambda>_. {7}),
               emailLib_send = (\<lambda>_ _ _. Rejected \<lparr>message = ''boom'', stack = ''at f''\<rparr>),
               typeError = (\<lambda>p. \<lparr>message = ''Cannot read property '' @ p, stack = []\<rparr>)\<rparr>
           \<lparr>createInstance = (\<lambda>_. Inr \<lparr>instance_id = ''i1'', steps = [\<lparr>step = ''s1'', url = ''https://plain''\<rparr>]\<rparr>),
               getAuthenticatedLinkForStep = (\<lambda>_ _. Inr ''https://signed'')\<rparr>
           \<lparr>collective_id = 7, name = Some (js ''Acme''), legalName = Some (js ''Acme LLC''),
               slug = js ''acme'', collective_type = ''ORGANIZATION''\<rparr>
           2024 ''https://cb'' ''wf''
           \<lparr>Collectives = [], LegalDocuments = [], Expenses = [], outbox = [], trace = []\<rparr>))
     = Some \<lparr>doc_id = 1, documentType = ''US_TAX_FORM'', year = 2024, CollectiveId = 7,
             requestStatus = REQUESTED,
             data = JObj [(''helloWorks'',
                           JObj [(''instance'', JObj [(''id'', JStr ''i1''),
                     (''steps'', JArr [JObj [(''step'', JStr ''s1''), (''url'', JStr ''https://plain'')]])]),
                                 (''documentLink'', JStr ''https://signed'')])]\<rparr>
   \<and> last (trace (snd (sendHelloWorksUsTaxForm
           \<lparr>config_env = ''production'', isEmailInternal = (\<lambda>_. False),
               getAdminUsers = (\<lambda>_. [\<lparr>user_id = 3, email = ''a@x.com'',
                         collective = \<lparr>collective_id = 30, name = Some (js ''Ann''), legalName = None,
                                       slug = js ''ann'', collective_type = ''USER''\<rparr>\<rparr>]),
               shouldBeRequested = (\<lambda>doc. requestStatus doc = ERROR),
               getTaxFormsRequiredForAccounts = (\<lambda>_. {7}),
               emailLib_send = (\<lambda>_ _ _. Rejected \<lparr>message = ''boom'', stack = ''at f''\<rparr>),
               typeError = (\<lambda>p. \<lparr>message = ''Cannot read property '' @ p, stack = []\<rparr>)\<rparr>
           \<lparr>createInstance = (\<lambda>_. Inr \<lparr>instance_id = ''i1'', steps = [\<lparr>step = ''s1'', url = ''https://plain''\<rparr>]\<rparr>),
               getAuthenticatedLinkForStep = (\<lambda>_ _. Inr ''https://signed'')\<rparr>
           \<lparr>collective_id = 7, name = Some (js ''Acme''), legalName = Some (js ''Acme LLC''),
               slug = js ''acme'', collective_type = ''ORGANIZATION''\<rparr>
           2024 ''https://cb'' ''wf''
           \<lparr>Collectives = [], LegalDocuments = [], Expenses = [], outbox = [], trace = []\<rparr>)))
     = EmailLib_send ''tax-form-request'' ''a@x.com''
         \<lparr>documentLink = ''https://signed'', recipientName = Some (js ''Ann''),
          accountName = Some (js ''Acme LLC'')\<rparr>
   \<and> outbox (snd (sendHelloWorksUsTaxForm
           \<lparr>config_env = ''production'', isEmailInternal = (\<lambda>_. False),
               getAdminUsers = (\<lambda>_. [\<lparr>user_id = 3, email = ''a@x.com'',
                         collective = \<lparr>collective_id = 30, name = Some (js ''Ann''), legalName = None,
                                       slug = js ''ann'', collective_type = ''USER''\<rparr>\<rparr>]),
               shouldBeRequested = (\<lambda>doc. requestStatus doc = ERROR),
               getTaxFormsRequiredForAccounts = (\<lambda>_. {7}),
               emailLib_send = (\<lambda>_ _ _. Rejected \<lparr>message = ''boom'', stack = ''at f''\<rparr>),
               typeError = (\<lambda>p. \<lparr>message = ''Cannot read property '' @ p, stack = []\<rparr>)\<rparr>
           \<lparr>createInstance = (\<lambda>_. Inr \<lparr>instance_id = ''i1'', steps = [\<lparr>step = ''s1'', url = ''https://plain''\<rparr>]\<rparr>),
               getAuthenticatedLinkForStep = (\<lambda>_ _. Inr ''https://signed'')\<rparr>
           \<lparr>collective_id = 7, name = Some (js ''Acme''), legalName = Some (js ''Acme LLC''),
               slug = js ''acme'', collective_type = ''ORGANIZATION''\<rparr>
           2024 ''https://cb'' ''wf''
           \<lparr>Collectives = [], LegalDocuments = [], Expenses = [], outbox = [], trace = []\<rparr>)) = []"
  by (simp add: sendHelloWorksUsTaxForm_def getAdminsForAccount_def getMainAdminToContact_def tryBlock_def catchBlock_def saveDocumentStatus_def LegalDocument_findOrCreate_def LegalDocument_update_def send_def emit_def logger_def matches_def freshId_def instanceParams_def participantsFor_def emailDataFor_def toString_def truthy_def jsOr_def instance_json_def js_def assign_def arrayIndex_def digit_def propertyIsUnsafe_def propertyIsOnObject_def ownProperty_def objectPrototypeKeys_def storedDocument_def US_TAX_FORM_def showNat.simps Let_def)

subsection \<open>The link cannot be fetched\<close>




end
